theory Spec2Isabelle
  imports Complex_Main "HOL-Library.Word"
begin

section \<open>Python values\<close>

text \<open>
  The reader works on the bytes of a file. A byte is an 8-bit word; a Python \<open>str\<close> is a
  list of Unicode code points; a Python \<open>float\<close> is either a finite number (kept as the
  rational it denotes, the sign of zero dropped), an infinity or a NaN.
\<close>

type_synonym byte = "8 word"

type_synonym pystr = "nat list"

datatype pyfloat = Fin rat | PInf | NInf | NaN

text \<open>The numbers \<open>struct.unpack\<close> produces: \<open>int\<close> or \<open>float\<close>.\<close>

datatype pynum = NInt int | NFloat pyfloat

text \<open>
  The objects a parameter can hold or be given: \<open>str\<close>, \<open>bool\<close>, \<open>int\<close>, \<open>float\<close>,
  a \<open>list\<close> or \<open>tuple\<close> of objects, and \<open>VOther\<close> for an object of any other type.
\<close>

datatype pyval =
    VStr pystr
  | VBool bool
  | VInt int
  | VFloat pyfloat
  | VList "pyval list"
  | VOther

datatype error =
    FileNotFoundError
  | NoFileOpen                \<comment> \<open>\<open>IOError("No file is open")\<close>\<close>
  | OSError                   \<comment> \<open>seek to a negative position\<close>
  | NegativeReadLength        \<comment> \<open>\<open>ValueError("read length must be non-negative or -1")\<close>\<close>
  | StructError               \<comment> \<open>\<open>struct.error\<close>: wrong number of bytes, bad format\<close>
  | UnicodeDecodeError
  | UnsupportedProcessorType  \<comment> \<open>\<open>ValueError("Unsupported processor type")\<close>\<close>
  | NotAValidC3DFile          \<comment> \<open>\<open>ValueError("Not a valid C3D file")\<close>\<close>
  | UnknownValueGiven         \<comment> \<open>\<open>ValueError("Unkown value given: ...")\<close>\<close>
  | MarkerCountMismatch       \<comment> \<open>\<open>ValueError("Marker count does not match ...")\<close>\<close>
  | InvalidFrameNumber        \<comment> \<open>\<open>ValueError("Invalid Frame Number")\<close>\<close>
  | NoDataTypeSet             \<comment> \<open>\<open>ValueError("Cannot set new data with no dataType set")\<close>\<close>
  | IncompatibleData          \<comment> \<open>\<open>ValueError("New Data is not compatible ...")\<close>\<close>
  | IncompatibleType          \<comment> \<open>\<open>ValueError("New Type is not compatible ...")\<close>\<close>
  | NoDataInList              \<comment> \<open>\<open>ValueError("No data in list")\<close>\<close>
  | UnsupportedType           \<comment> \<open>\<open>ValueError("... is not a supported type ...")\<close>\<close>
  | RangeStepZero             \<comment> \<open>\<open>ValueError("range() arg 3 must not be zero")\<close>\<close>
  | TypeError
  | AttributeError
  | IndexError

subsection \<open>Numbers\<close>

text \<open>\<open>x == 0\<close>, \<open>x < 0\<close> and \<open>i * x\<close> for an \<open>int\<close> \<open>i\<close>, on numbers.\<close>

fun num_eq_zero :: "pynum \<Rightarrow> bool" where
  "num_eq_zero (NInt i) = (i = 0)"
| "num_eq_zero (NFloat (Fin q)) = (q = 0)"
| "num_eq_zero (NFloat _) = False"

fun num_lt_zero :: "pynum \<Rightarrow> bool" where
  "num_lt_zero (NInt i) = (i < 0)"
| "num_lt_zero (NFloat (Fin q)) = (q < 0)"
| "num_lt_zero (NFloat NInf) = True"
| "num_lt_zero (NFloat _) = False"

text \<open>
  The product of an \<open>int\<close> and a \<open>float\<close>. The factors met while decoding are a 16-bit
  integer and a 32-bit float, whose product is exact in Python's 64-bit floats.
\<close>

fun int_mul_float :: "int \<Rightarrow> pyfloat \<Rightarrow> pyfloat" where
  "int_mul_float i (Fin q) = Fin (of_int i * q)"
| "int_mul_float i PInf = (if i = 0 then NaN else if 0 < i then PInf else NInf)"
| "int_mul_float i NInf = (if i = 0 then NaN else if 0 < i then NInf else PInf)"
| "int_mul_float i NaN = NaN"

fun int_mul :: "int \<Rightarrow> pynum \<Rightarrow> pynum" where
  "int_mul i (NInt j) = NInt (i * j)"
| "int_mul i (NFloat f) = NFloat (int_mul_float i f)"

text \<open>\<open>f == i\<close> for a \<open>float\<close> \<open>f\<close> and an \<open>int\<close> \<open>i\<close>: the comparison is by value.\<close>

fun float_eq_int :: "pyfloat \<Rightarrow> int \<Rightarrow> bool" where
  "float_eq_int (Fin q) i = (q = of_int i)"
| "float_eq_int f i = False"

text \<open>A number as an object, and an object as a number (\<open>bool\<close> is a subclass of \<open>int\<close>).\<close>

fun val_of_num :: "pynum \<Rightarrow> pyval" where
  "val_of_num (NInt i) = VInt i"
| "val_of_num (NFloat f) = VFloat f"

fun num_of_val :: "pyval \<Rightarrow> pynum option" where
  "num_of_val (VInt i) = Some (NInt i)"
| "num_of_val (VBool b) = Some (NInt (if b then 1 else 0))"
| "num_of_val (VFloat f) = Some (NFloat f)"
| "num_of_val _ = None"

subsection \<open>Strings\<close>

text \<open>
  \<open>bytes.decode()\<close>: strict UTF-8. Overlong forms, surrogates, code points above
  U+10FFFF and truncated sequences are errors (\<open>None\<close>).
\<close>

definition cont :: "nat \<Rightarrow> bool" where
  "cont c = (128 \<le> c \<and> c \<le> 191)"

fun utf8 :: "nat list \<Rightarrow> pystr option" where
  "utf8 [] = Some []"
| "utf8 (b # bs) =
     (if b < 128 then map_option ((#) b) (utf8 bs)
      else if 194 \<le> b \<and> b \<le> 223 then
        (case bs of
           c1 # r \<Rightarrow>
             if cont c1 then map_option ((#) ((b - 192) * 64 + (c1 - 128))) (utf8 r)
             else None
         | _ \<Rightarrow> None)
      else if 224 \<le> b \<and> b \<le> 239 then
        (case bs of
           c1 # c2 # r \<Rightarrow>
             if (if b = 224 then 160 else 128) \<le> c1 \<and> c1 \<le> (if b = 237 then 159 else 191)
                \<and> cont c2
             then map_option ((#) ((b - 224) * 4096 + (c1 - 128) * 64 + (c2 - 128))) (utf8 r)
             else None
         | _ \<Rightarrow> None)
      else if 240 \<le> b \<and> b \<le> 244 then
        (case bs of
           c1 # c2 # c3 # r \<Rightarrow>
             if (if b = 240 then 144 else 128) \<le> c1 \<and> c1 \<le> (if b = 244 then 143 else 191)
                \<and> cont c2 \<and> cont c3
             then map_option
                    ((#) ((b - 240) * 262144 + (c1 - 128) * 4096 + (c2 - 128) * 64 + (c3 - 128)))
                    (utf8 r)
             else None
         | _ \<Rightarrow> None)
      else None)"

definition decode :: "byte list \<Rightarrow> pystr option" where
  "decode bs = utf8 (map unat bs)"

text \<open>\<open>str.strip()\<close>: leading and trailing whitespace (\<open>str.isspace\<close>) removed.\<close>

definition isspace :: "nat \<Rightarrow> bool" where
  "isspace c =
     ((9 \<le> c \<and> c \<le> 13) \<or> (28 \<le> c \<and> c \<le> 32) \<or> c = 133 \<or> c = 160 \<or> c = 5760
      \<or> (8192 \<le> c \<and> c \<le> 8202) \<or> c = 8232 \<or> c = 8233 \<or> c = 8239 \<or> c = 8287
      \<or> c = 12288)"

definition strip :: "pystr \<Rightarrow> pystr" where
  "strip s = rev (dropWhile isspace (rev (dropWhile isspace s)))"

text \<open>A string literal of the source, as code points.\<close>

definition lit :: "string \<Rightarrow> pystr" where
  "lit s = map of_char s"

section \<open>consts.py\<close>

datatype DataType = DT_FLOAT | DT_LONG | DT_INT

fun size_of :: "DataType \<Rightarrow> nat" where
  "size_of DT_FLOAT = 4"
| "size_of DT_LONG = 4"
| "size_of DT_INT = 2"

definition DEC :: string where "DEC = ''DEC''"
definition INTEL :: string where "INTEL = ''Intel''"
definition MIPS :: string where "MIPS = ''MIPS''"

section \<open>struct.unpack\<close>

text \<open>The unsigned value of a byte string, least significant byte first.\<close>

fun le_nat :: "byte list \<Rightarrow> nat" where
  "le_nat [] = 0"
| "le_nat (b # bs) = unat b + 256 * le_nat bs"

text \<open>
  The value of an IEEE 754 binary32 bit pattern: sign bit 31, exponent bits 23 to 30,
  fraction bits 0 to 22.
\<close>

definition float32 :: "nat \<Rightarrow> pyfloat" where
  "float32 n =
     (let s = (n div 2 ^ 31) mod 2; e = (n div 2 ^ 23) mod 256; m = n mod 2 ^ 23;
          sg = (if s = 1 then - 1 else 1 :: rat)
      in if e = 255 then (if m = 0 then (if s = 1 then NInf else PInf) else NaN)
         else if e = 0 then Fin (sg * of_nat m / 2 ^ 149)
         else if 150 \<le> e then Fin (sg * of_nat (2 ^ 23 + m) * 2 ^ (e - 150))
         else Fin (sg * of_nat (2 ^ 23 + m) / 2 ^ (150 - e)))"

datatype byteorder = Little | Big

text \<open>
  \<open>struct.unpack(f"<{fmt}", data)[0]\<close> and \<open>struct.unpack(f">{fmt}", data)[0]\<close> for the
  formats \<open>h\<close>, \<open>l\<close> and \<open>f\<close>: the data must have exactly the size of the format.
\<close>

definition field_value :: "byteorder \<Rightarrow> DataType \<Rightarrow> byte list \<Rightarrow> pynum" where
  "field_value bo dt data =
     (let n = (case bo of Little \<Rightarrow> le_nat data | Big \<Rightarrow> le_nat (rev data))
      in case dt of
           DT_INT \<Rightarrow> NInt (sint (of_nat n :: 16 word))
         | DT_LONG \<Rightarrow> NInt (sint (of_nat n :: 32 word))
         | DT_FLOAT \<Rightarrow> NFloat (float32 n))"

definition unpack :: "byteorder \<Rightarrow> DataType \<Rightarrow> byte list \<Rightarrow> error + pynum" where
  "unpack bo dt data =
     (if length data = size_of dt then Inr (field_value bo dt data) else Inl StructError)"

section \<open>binaryFileReader.py\<close>

text \<open>
  \<open>BinaryFileReader._readBasedOnProcessorType\<close>. The cache of the source does not change
  what is returned.
\<close>

definition readBasedOnProcessorType ::
  "byte list \<Rightarrow> DataType \<Rightarrow> string option \<Rightarrow> error + pynum" where
  "readBasedOnProcessorType data dataType processorType =
     (if processorType = Some INTEL \<or> processorType = None then unpack Little dataType data
      else if processorType = Some DEC then unpack Big dataType (rev data)
      else if processorType = Some MIPS then unpack Little dataType (drop 1 data @ take 1 data)
      else Inl UnsupportedProcessorType)"

subsection \<open>Statements that change an object and may raise\<close>

text \<open>
  A method takes the state of the objects it works on and returns their new state together
  with its result or the exception it raised. What was changed before an exception stays
  changed, as in Python.
\<close>

type_synonym ('s, 'a) exn = "'s \<Rightarrow> (error + 'a) \<times> 's"

definition ret :: "'a \<Rightarrow> ('s, 'a) exn" where
  "ret a s = (Inr a, s)"

definition raise :: "error \<Rightarrow> ('s, 'a) exn" where
  "raise e s = (Inl e, s)"

definition andThen :: "('s, 'a) exn \<Rightarrow> ('a \<Rightarrow> ('s, 'b) exn) \<Rightarrow> ('s, 'b) exn" where
  "andThen m f s = (case m s of (Inl e, s') \<Rightarrow> (Inl e, s') | (Inr a, s') \<Rightarrow> f a s')"

definition modify :: "('s \<Rightarrow> 's) \<Rightarrow> ('s, unit) exn" where
  "modify f s = (Inr (), f s)"

definition gets :: "('s \<Rightarrow> 'a) \<Rightarrow> ('s, 'a) exn" where
  "gets f s = (Inr (f s), s)"

text \<open>A result computed without touching the state.\<close>

definition lift :: "error + 'a \<Rightarrow> ('s, 'a) exn" where
  "lift x s = (x, s)"

subsection \<open>BinaryFileReader\<close>

text \<open>
  The reader: the bytes of the file behind \<open>_handle\<close>, the cursor of the handle
  (\<open>None\<close> while no file is open) and the processor type.
\<close>

record BinaryFileReader =
  contents :: "byte list"
  handle :: "nat option"
  r_processorType :: "string option"

text \<open>\<open>BinaryFileReader(filePath)\<close> on a file with the given bytes.\<close>

definition openFile :: "byte list \<Rightarrow> BinaryFileReader" where
  "openFile bs = \<lparr>contents = bs, handle = Some 0, r_processorType = None\<rparr>"

definition seek :: "int \<Rightarrow> (BinaryFileReader, unit) exn" where
  "seek seekPos r =
     (case handle r of
        None \<Rightarrow> (Inl NoFileOpen, r)
      | Some _ \<Rightarrow>
          if seekPos < 0 then (Inl OSError, r)
          else (Inr (), r\<lparr>handle := Some (nat seekPos)\<rparr>))"

definition tell :: "(BinaryFileReader, int) exn" where
  "tell r =
     (case handle r of
        None \<Rightarrow> (Inl NoFileOpen, r)
      | Some pos \<Rightarrow> (Inr (int pos), r))"

text \<open>
  \<open>readBytes\<close>: \<open>file.read(length)\<close> on a binary file returns what is left when fewer
  than \<open>length\<close> bytes are left, and everything up to the end of the file when \<open>length\<close>
  is \<open>-1\<close>. For a length below \<open>-1\<close> it raises \<open>ValueError\<close> and leaves the cursor
  where it was.
\<close>

definition readBytes :: "int \<Rightarrow> (BinaryFileReader, byte list) exn" where
  "readBytes len r =
     (case handle r of
        None \<Rightarrow> (Inl NoFileOpen, r)
      | Some pos \<Rightarrow>
          if len < - 1 then (Inl NegativeReadLength, r)
          else
            (let rest = drop pos (contents r);
                 bs = (if len = - 1 then rest else take (nat len) rest)
             in (Inr bs, r\<lparr>handle := Some (pos + length bs)\<rparr>)))"

definition readStringFromByte :: "int \<Rightarrow> (BinaryFileReader, pystr) exn" where
  "readStringFromByte len =
     andThen (readBytes len) (\<lambda>data.
       case decode data of None \<Rightarrow> raise UnicodeDecodeError | Some s \<Rightarrow> ret s)"

text \<open>\<open>struct.unpack('b', ...)\<close> and \<open>struct.unpack('B', ...)\<close> want exactly one byte.\<close>

definition readByte :: "(BinaryFileReader, int) exn" where
  "readByte =
     andThen (readBytes 1) (\<lambda>data.
       case data of [b] \<Rightarrow> ret (sint b) | _ \<Rightarrow> raise StructError)"

definition readUnsignedByte :: "(BinaryFileReader, int) exn" where
  "readUnsignedByte =
     andThen (readBytes 1) (\<lambda>data.
       case data of [b] \<Rightarrow> ret (uint b) | _ \<Rightarrow> raise StructError)"

text \<open>The formats \<open>h\<close> and \<open>l\<close> give an \<open>int\<close>, the format \<open>f\<close> a \<open>float\<close>.\<close>

fun the_int :: "pynum \<Rightarrow> int" where
  "the_int (NInt i) = i"
| "the_int (NFloat f) = 0"

fun the_float :: "pynum \<Rightarrow> pyfloat" where
  "the_float (NFloat f) = f"
| "the_float (NInt i) = Fin (of_int i)"

definition readInt :: "(BinaryFileReader, int) exn" where
  "readInt =
     andThen (readBytes 2) (\<lambda>data.
     andThen (gets r_processorType) (\<lambda>p.
     andThen (lift (readBasedOnProcessorType data DT_INT p)) (\<lambda>v. ret (the_int v))))"

definition readLong :: "(BinaryFileReader, int) exn" where
  "readLong =
     andThen (readBytes 4) (\<lambda>data.
     andThen (gets r_processorType) (\<lambda>p.
     andThen (lift (readBasedOnProcessorType data DT_LONG p)) (\<lambda>v. ret (the_int v))))"

definition readFloat :: "(BinaryFileReader, pyfloat) exn" where
  "readFloat =
     andThen (readBytes 4) (\<lambda>data.
     andThen (gets r_processorType) (\<lambda>p.
     andThen (lift (readBasedOnProcessorType data DT_FLOAT p)) (\<lambda>v. ret (the_float v))))"

definition setProcessorType :: "string option \<Rightarrow> (BinaryFileReader, unit) exn" where
  "setProcessorType p = modify (\<lambda>r. r\<lparr>r_processorType := p\<rparr>)"

text \<open>
  \<open>struct.unpack(f"<{total}f", data)\<close>: a negative count is a bad format, and the data
  must hold exactly that many fields. The fields are little-endian whatever the processor
  type.
\<close>

fun chunks :: "nat \<Rightarrow> nat \<Rightarrow> 'a list \<Rightarrow> 'a list list" where
  "chunks 0 w xs = []"
| "chunks (Suc k) w xs = take w xs # chunks k w (drop w xs)"

definition unpack_all :: "DataType \<Rightarrow> int \<Rightarrow> byte list \<Rightarrow> error + pynum list" where
  "unpack_all dt n data =
     (if n < 0 then Inl StructError
      else if length data = size_of dt * nat n
      then Inr (map (field_value Little dt) (chunks (nat n) (size_of dt) data))
      else Inl StructError)"

definition bulkReadFloat :: "int \<Rightarrow> (BinaryFileReader, pynum list) exn" where
  "bulkReadFloat n =
     andThen (readBytes (int (size_of DT_FLOAT) * n)) (\<lambda>data.
       lift (unpack_all DT_FLOAT n data))"

definition bulkReadInt :: "int \<Rightarrow> (BinaryFileReader, pynum list) exn" where
  "bulkReadInt n =
     andThen (readBytes (int (size_of DT_INT) * n)) (\<lambda>data.
       lift (unpack_all DT_INT n data))"

section \<open>_internals.py\<close>

subsection \<open>ParameterDataTypes\<close>

definition String :: int where "String = - 1"
definition Byte :: int where "Byte = 1"
definition Interger :: int where "Interger = 2"
definition FloatingPoint :: int where "FloatingPoint = 4"

text \<open>\<open>type(x) is int\<close> and \<open>type(x) is float\<close>: a \<open>bool\<close> has the type \<open>bool\<close>.\<close>

fun type_is_int :: "pyval \<Rightarrow> bool" where
  "type_is_int (VInt i) = True"
| "type_is_int _ = False"

fun type_is_float :: "pyval \<Rightarrow> bool" where
  "type_is_float (VFloat f) = True"
| "type_is_float _ = False"

text \<open>The \<open>isinstance\<close> chain of \<open>getTypeFromData\<close>, on what is not a list or tuple.\<close>

fun typeFromScalar :: "pyval \<Rightarrow> error + int" where
  "typeFromScalar (VStr s) = Inr String"
| "typeFromScalar (VBool b) = Inr Byte"
| "typeFromScalar (VInt i) = (if i < 255 then Inr Byte else Inr Interger)"
| "typeFromScalar (VFloat f) = Inr FloatingPoint"
| "typeFromScalar (VList xs) = Inl UnsupportedType"
| "typeFromScalar VOther = Inl UnsupportedType"

fun getTypeFromData :: "pyval \<Rightarrow> error + int" where
  "getTypeFromData (VList xs) =
     (if list_ex type_is_int xs \<and> list_ex type_is_float xs then Inr FloatingPoint
      else case xs of [] \<Rightarrow> Inl NoDataInList | x # _ \<Rightarrow> typeFromScalar x)"
| "getTypeFromData v = typeFromScalar v"

text \<open>Every exception of \<open>getTypeFromData\<close> is a \<open>ValueError\<close>, which is caught.\<close>

definition dataTypeCheck :: "pyval \<Rightarrow> int \<Rightarrow> bool" where
  "dataTypeCheck inputData inputType =
     (case getTypeFromData inputData of
        Inl e \<Rightarrow> False
      | Inr expectedData \<Rightarrow>
          if expectedData = Byte \<and> inputType = Interger then True
          else expectedData = inputType)"

subsection \<open>Header\<close>

record Header =
  parameterBlock :: int
  markerCount :: int
  analogMesasurements :: int
  firstFrame :: int
  lastFrame :: int
  maxFrameGap :: int
  scaleFactor :: pyfloat
  dataStart :: int
  sampleRate :: int
  frameRate :: pyfloat
  paramaterBlockCount :: int
  processorType :: "string option"

definition clear_header :: Header where
  "clear_header =
     \<lparr>parameterBlock = 0, markerCount = 0, analogMesasurements = 0, firstFrame = 0,
      lastFrame = 0, maxFrameGap = 0, scaleFactor = Fin 0, dataStart = 0, sampleRate = 0,
      frameRate = Fin 0, paramaterBlockCount = 0, processorType = None\<rparr>"

subsection \<open>ParameterBase, Parameter, ParameterGroup\<close>

record ParameterBase =
  name :: pystr
  description :: pystr
  locked :: bool

record Parameter = ParameterBase +
  data :: "pyval option"
  dataType :: "int option"
  dimensions :: "int \<times> int"

record ParameterGroup = ParameterBase +
  parameters :: "Parameter list"
  groupId :: int

text \<open>\<open>Parameter(name)\<close>.\<close>

definition newParameter :: "pystr \<Rightarrow> Parameter" where
  "newParameter n =
     \<lparr>name = n, description = [], locked = False, data = None, dataType = None,
      dimensions = (0, 0)\<rparr>"

definition setDataType :: "int \<Rightarrow> (Parameter, unit) exn" where
  "setDataType newValue p =
     (case data p of
        None \<Rightarrow> (Inr (), p\<lparr>dataType := Some newValue\<rparr>)
      | Some d \<Rightarrow>
          if dataTypeCheck d newValue then (Inr (), p\<lparr>dataType := Some newValue\<rparr>)
          else (Inl IncompatibleType, p))"

definition setData :: "pyval \<Rightarrow> (Parameter, unit) exn" where
  "setData newData p =
     (case dataType p of
        None \<Rightarrow> (Inl NoDataTypeSet, p)
      | Some t \<Rightarrow>
          if dataTypeCheck newData t then (Inr (), p\<lparr>data := Some newData\<rparr>)
          else (Inl IncompatibleData, p))"

text \<open>\<open>ParameterGroup(name, groupId)\<close>: a positive id locks the group.\<close>

definition newParameterGroup :: "pystr \<Rightarrow> int \<Rightarrow> ParameterGroup" where
  "newParameterGroup n gid =
     \<lparr>name = n, description = [], locked = (0 < gid), parameters = [], groupId = \<bar>gid\<bar>\<rparr>"

definition setDescription :: "pystr \<Rightarrow> ParameterGroup \<Rightarrow> ParameterGroup" where
  "setDescription newValue g = g\<lparr>description := newValue\<rparr>"

definition getParameter :: "ParameterGroup \<Rightarrow> pystr \<Rightarrow> Parameter option" where
  "getParameter g n = find (\<lambda>param. name param = n) (parameters g)"

text \<open>
  \<open>addNewProperty\<close> appends a new parameter and returns it: here its place in the list,
  through which the caller changes it afterwards.
\<close>

definition addNewProperty :: "pystr \<Rightarrow> (ParameterGroup, nat) exn" where
  "addNewProperty n g =
     (Inr (length (parameters g)), g\<lparr>parameters := parameters g @ [newParameter n]\<rparr>)"

subsection \<open>Marker\<close>

text \<open>
  A \<open>Vector3\<close> made by \<open>_quickVec\<close> holds the slice it was given. The dictionary of a marker
  is kept as the list of its items, in insertion order, the keys distinct.
\<close>

datatype Vector3 = Vector3 "pynum list"

record Marker =
  markerName :: pyval
  m_data :: "(int \<times> Vector3 option) list"

definition newMarker :: "pyval \<Rightarrow> Marker" where
  "newMarker n = \<lparr>markerName = n, m_data = []\<rparr>"

text \<open>\<open>self._data.get(frameNumber)\<close>: \<open>None\<close> for a missing key, else the stored value.\<close>

definition getPosition :: "Marker \<Rightarrow> int \<Rightarrow> Vector3 option" where
  "getPosition m frameNumber =
     (case map_of (m_data m) frameNumber of None \<Rightarrow> None | Some v \<Rightarrow> v)"

section \<open>c3dFile.py\<close>

record C3DFile =
  filePath :: string
  parameterGroups :: "ParameterGroup list"   \<comment> \<open>\<open>self._parameters\<close>\<close>
  markers :: "Marker list"
  header :: Header

text \<open>\<open>C3DFile()\<close> without a path, and \<open>reset\<close>.\<close>

definition newC3DFile :: C3DFile where
  "newC3DFile = \<lparr>filePath = [], parameterGroups = [], markers = [], header = clear_header\<rparr>"

definition reset :: "C3DFile \<Rightarrow> C3DFile" where
  "reset self = self\<lparr>header := clear_header, parameterGroups := [], markers := []\<rparr>"

text \<open>
  While a file is loaded, the methods work on the reader and on the document: the state
  is the pair of both.
\<close>

type_synonym loading = "BinaryFileReader \<times> C3DFile"

definition onHandle :: "(BinaryFileReader, 'a) exn \<Rightarrow> (loading, 'a) exn" where
  "onHandle m s = (case m (fst s) of (x, r) \<Rightarrow> (x, (r, snd s)))"

definition onSelf :: "(C3DFile, 'a) exn \<Rightarrow> (loading, 'a) exn" where
  "onSelf m s = (case m (snd s) of (x, d) \<Rightarrow> (x, (fst s, d)))"

definition setHeader :: "(Header \<Rightarrow> Header) \<Rightarrow> (loading, unit) exn" where
  "setHeader f = onSelf (modify (\<lambda>self. self\<lparr>header := f (header self)\<rparr>))"

subsection \<open>Header\<close>

text \<open>The dictionary of \<open>_readProcessorType\<close>, looked up with \<open>get\<close>.\<close>

definition processorTypes :: "int \<Rightarrow> string option" where
  "processorTypes pt =
     (if pt = 84 then Some INTEL
      else if pt = 85 then Some DEC
      else if pt = 86 then Some MIPS
      else None)"

definition readProcessorType :: "(loading, unit) exn" where
  "readProcessorType =
     andThen (onHandle readByte) (\<lambda>pt.
       let newProc = processorTypes pt
       in andThen (setHeader (\<lambda>h. h\<lparr>processorType := newProc\<rparr>)) (\<lambda>_.
          onHandle (setProcessorType newProc)))"

definition readHeader :: "(loading, unit) exn" where
  "readHeader =
     andThen (onHandle (seek 0)) (\<lambda>_.
     andThen (onHandle readByte) (\<lambda>v.
     andThen (setHeader (\<lambda>h. h\<lparr>parameterBlock := v\<rparr>)) (\<lambda>_.
     andThen (onHandle tell) (\<lambda>curPos.
     andThen (onSelf (gets header)) (\<lambda>h.
     andThen (onHandle (seek ((parameterBlock h - 1) * 512))) (\<lambda>_.
     andThen (onHandle readByte) (\<lambda>_.
     andThen (onHandle readByte) (\<lambda>_.
     andThen (onHandle readByte) (\<lambda>_.
     andThen readProcessorType (\<lambda>_.
     andThen (onHandle (seek curPos)) (\<lambda>_.
     andThen (onHandle readByte) (\<lambda>key.
     if key = 80 then
       andThen (onHandle readInt) (\<lambda>v.
       andThen (setHeader (\<lambda>h. h\<lparr>markerCount := v\<rparr>)) (\<lambda>_.
       andThen (onHandle readInt) (\<lambda>v.
       andThen (setHeader (\<lambda>h. h\<lparr>analogMesasurements := v\<rparr>)) (\<lambda>_.
       andThen (onHandle readInt) (\<lambda>v.
       andThen (setHeader (\<lambda>h. h\<lparr>firstFrame := v\<rparr>)) (\<lambda>_.
       andThen (onHandle readInt) (\<lambda>v.
       andThen (setHeader (\<lambda>h. h\<lparr>lastFrame := v\<rparr>)) (\<lambda>_.
       andThen (onHandle readInt) (\<lambda>v.
       andThen (setHeader (\<lambda>h. h\<lparr>maxFrameGap := v\<rparr>)) (\<lambda>_.
       andThen (onHandle readFloat) (\<lambda>v.
       andThen (setHeader (\<lambda>h. h\<lparr>scaleFactor := v\<rparr>)) (\<lambda>_.
       andThen (onHandle readInt) (\<lambda>v.
       andThen (setHeader (\<lambda>h. h\<lparr>dataStart := v\<rparr>)) (\<lambda>_.
       andThen (onHandle readInt) (\<lambda>v.
       andThen (setHeader (\<lambda>h. h\<lparr>sampleRate := v\<rparr>)) (\<lambda>_.
       andThen (onHandle readFloat) (\<lambda>v.
       setHeader (\<lambda>h. h\<lparr>frameRate := v\<rparr>))))))))))))))))))
     else raise NotAValidC3DFile))))))))))))"

subsection \<open>Parameters\<close>

text \<open>
  An object found in a list is changed in place: the model works with its index.
\<close>

fun find_index :: "('a \<Rightarrow> bool) \<Rightarrow> 'a list \<Rightarrow> nat option" where
  "find_index P [] = None"
| "find_index P (x # xs) = (if P x then Some 0 else map_option Suc (find_index P xs))"

definition getParameterByGroupId :: "int \<Rightarrow> C3DFile \<Rightarrow> nat option" where
  "getParameterByGroupId gid self =
     find_index (\<lambda>param. groupId param = \<bar>gid\<bar>) (parameterGroups self)"

definition onGroup :: "nat \<Rightarrow> (ParameterGroup, 'a) exn \<Rightarrow> (C3DFile, 'a) exn" where
  "onGroup gi m self =
     (case m (parameterGroups self ! gi) of
        (x, g) \<Rightarrow> (x, self\<lparr>parameterGroups := (parameterGroups self)[gi := g]\<rparr>))"

definition onParameter :: "nat \<Rightarrow> (Parameter, 'a) exn \<Rightarrow> (ParameterGroup, 'a) exn" where
  "onParameter i m g =
     (case m (parameters g ! i) of
        (x, q) \<Rightarrow> (x, g\<lparr>parameters := (parameters g)[i := q]\<rparr>))"

definition readDescription :: "(BinaryFileReader, pystr) exn" where
  "readDescription =
     andThen readByte (\<lambda>paramDescirptionLength.
       if paramDescirptionLength = 0 then ret []
       else readStringFromByte paramDescirptionLength)"

definition newParam :: "pystr \<Rightarrow> int \<Rightarrow> (loading, unit) exn" where
  "newParam n gid =
     andThen (onHandle readDescription) (\<lambda>d.
       onSelf (modify (\<lambda>self.
         self\<lparr>parameterGroups :=
                parameterGroups self @ [setDescription d (newParameterGroup n gid)]\<rparr>)))"

definition readPropertyValue :: "int \<Rightarrow> (BinaryFileReader, pyval) exn" where
  "readPropertyValue propertyType =
     (if propertyType = - 1 then
        andThen readByte (\<lambda>nameLength.
        andThen (readStringFromByte nameLength) (\<lambda>s. ret (VStr s)))
      else if propertyType = 1 then andThen readByte (\<lambda>v. ret (VInt v))
      else if propertyType = 2 then andThen readInt (\<lambda>v. ret (VInt v))
      else if propertyType = 4 then andThen readFloat (\<lambda>v. ret (VFloat v))
      else raise UnknownValueGiven)"

text \<open>
  The loop over the strings of a string array. A failure to read one string is caught:
  the value becomes the one sentinel, and the loop goes on with the next string.
\<close>

definition UNABLE_TO_READ_VALUE :: pystr where
  "UNABLE_TO_READ_VALUE = lit ''UNABLE TO READ VALUE''"

fun readStrings :: "nat \<Rightarrow> int \<Rightarrow> pyval list \<Rightarrow> BinaryFileReader \<Rightarrow> pyval list \<times> BinaryFileReader"
  where
  "readStrings 0 stringSize val r = (val, r)"
| "readStrings (Suc k) stringSize val r =
     (case readStringFromByte stringSize r of
        (Inr s, r') \<Rightarrow> readStrings k stringSize (val @ [VStr (strip s)]) r'
      | (Inl e, r') \<Rightarrow> readStrings k stringSize [VStr UNABLE_TO_READ_VALUE] r')"

text \<open>The loop over the scalars of an array.\<close>

fun readPropertyValues :: "nat \<Rightarrow> int \<Rightarrow> (BinaryFileReader, pyval list) exn" where
  "readPropertyValues 0 propertyType = ret []"
| "readPropertyValues (Suc k) propertyType =
     andThen (readPropertyValue propertyType) (\<lambda>v.
     andThen (readPropertyValues k propertyType) (\<lambda>vs. ret (v # vs)))"

text \<open>The value of a parameter record: the \<open>if\<close>, \<open>elif\<close>, \<open>else\<close> of \<open>_readParamBlock\<close>.\<close>

definition readValue :: "int \<Rightarrow> int \<Rightarrow> (BinaryFileReader, pyval) exn" where
  "readValue propertyType dataDimensions =
     (if propertyType = - 1 then
        andThen readByte (\<lambda>stringSize.
          if 1 < dataDimensions then
            andThen readUnsignedByte (\<lambda>arraySize.
              (\<lambda>r. case readStrings (nat arraySize) stringSize
                            (if arraySize = 0 then [VStr []] else []) r of
                      (val, r') \<Rightarrow> (Inr (VList val), r')))
          else andThen (readStringFromByte stringSize) (\<lambda>s. ret (VStr (strip s))))
      else if dataDimensions = 0 then readPropertyValue propertyType
      else andThen (readPropertyValues (nat dataDimensions) propertyType) (\<lambda>vs. ret (VList vs)))"

definition readParamBlock :: "(loading, bool) exn" where
  "readParamBlock =
     andThen (onHandle readByte) (\<lambda>b.
       let nameLength = \<bar>b\<bar> in
       if nameLength = 0 then ret False
       else
         andThen (onHandle readByte) (\<lambda>gid.
         andThen (onHandle (readStringFromByte nameLength)) (\<lambda>groupName.
         andThen (onHandle tell) (\<lambda>currentFilePos.
         andThen (onHandle readInt) (\<lambda>bytesToNextGroup.
           if bytesToNextGroup = 0 then ret False
           else
             andThen (onSelf (gets (getParameterByGroupId gid))) (\<lambda>parameterGroup.
               case parameterGroup of
                 None \<Rightarrow> andThen (newParam groupName gid) (\<lambda>_. ret True)
               | Some gi \<Rightarrow>
                   andThen (onSelf (onGroup gi (addNewProperty groupName))) (\<lambda>param.
                   andThen (onHandle readByte) (\<lambda>propertyType.
                   andThen (onHandle readByte) (\<lambda>dataDimensions.
                   andThen (onHandle (readValue propertyType dataDimensions)) (\<lambda>val.
                   andThen (onSelf (onGroup gi (onParameter param (setDataType propertyType)))) (\<lambda>_.
                   andThen (onSelf (onGroup gi (onParameter param (setData val)))) (\<lambda>_.
                   andThen (onHandle (seek (currentFilePos + bytesToNextGroup))) (\<lambda>_.
                   ret True)))))))))))))"

text \<open>
  The head of a record, lines 180 to 190 of \<open>_readParamBlock\<close>, on its own: the group id,
  the name, the position \<open>currentFilePos\<close> of the offset field and the offset
  \<open>bytesToNextGroup\<close>. \<open>None\<close> stands for the two \<open>return False\<close>.
\<close>

definition readRecordHead :: "(BinaryFileReader, (int \<times> pystr \<times> int \<times> int) option) exn" where
  "readRecordHead =
     andThen readByte (\<lambda>b.
       let nameLength = \<bar>b\<bar> in
       if nameLength = 0 then ret None
       else
         andThen readByte (\<lambda>gid.
         andThen (readStringFromByte nameLength) (\<lambda>groupName.
         andThen tell (\<lambda>currentFilePos.
         andThen readInt (\<lambda>bytesToNextGroup.
           if bytesToNextGroup = 0 then ret None
           else ret (Some (gid, groupName, currentFilePos, bytesToNextGroup)))))))"

text \<open>
  \<open>while True\<close>: the loop ends when a record returns \<open>False\<close> or raises. It need not end
  (an offset can lead back to a record already read), so it is given fuel: \<open>None\<close> means
  that the fuel ran out.
\<close>

fun readParamBlocks :: "nat \<Rightarrow> loading \<Rightarrow> ((error + unit) \<times> loading) option" where
  "readParamBlocks 0 s = None"
| "readParamBlocks (Suc n) s =
     (case readParamBlock s of
        (Inl e, s') \<Rightarrow> Some (Inl e, s')
      | (Inr False, s') \<Rightarrow> Some (Inr (), s')
      | (Inr True, s') \<Rightarrow> readParamBlocks n s')"

definition readParametersStart :: "(loading, unit) exn" where
  "readParametersStart =
     andThen (onSelf (gets header)) (\<lambda>h.
     andThen (onHandle (seek ((parameterBlock h - 1) * 512))) (\<lambda>_.
     andThen (onHandle readByte) (\<lambda>_.
     andThen (onHandle readByte) (\<lambda>_.
     andThen (onHandle readByte) (\<lambda>v.
     andThen (setHeader (\<lambda>h. h\<lparr>paramaterBlockCount := v\<rparr>)) (\<lambda>_.
     readProcessorType))))))"

definition readParameters :: "nat \<Rightarrow> loading \<Rightarrow> ((error + unit) \<times> loading) option" where
  "readParameters fuel s =
     (case readParametersStart s of
        (Inl e, s') \<Rightarrow> Some (Inl e, s')
      | (Inr _, s') \<Rightarrow> readParamBlocks fuel s')"

subsection \<open>Markers\<close>

definition getMarkerCount :: "C3DFile \<Rightarrow> int" where
  "getMarkerCount self = markerCount (header self)"

definition getParameterGroup :: "pystr \<Rightarrow> C3DFile \<Rightarrow> ParameterGroup option" where
  "getParameterGroup n self = find (\<lambda>param. name param = n) (parameterGroups self)"

text \<open>
  \<open>_quickVec\<close>: \<open>data[0] == 0 and data[1] == 0 and data[2] == 0\<close> reads an element only
  when the elements before it are zero; a missing element raises \<open>IndexError\<close>.
\<close>

definition quickVec :: "pynum list \<Rightarrow> error + Vector3 option" where
  "quickVec d =
     (case d of
        [] \<Rightarrow> Inl IndexError
      | x0 # r0 \<Rightarrow>
          if num_eq_zero x0 then
            (case r0 of
               [] \<Rightarrow> Inl IndexError
             | x1 # r1 \<Rightarrow>
                 if num_eq_zero x1 then
                   (case r1 of
                      [] \<Rightarrow> Inl IndexError
                    | x2 # r2 \<Rightarrow> if num_eq_zero x2 then Inr None else Inr (Some (Vector3 d)))
                 else Inr (Some (Vector3 d)))
          else Inr (Some (Vector3 d)))"

text \<open>\<open>range(0, n, step)\<close>.\<close>

definition range0 :: "nat \<Rightarrow> int \<Rightarrow> error + nat list" where
  "range0 n step =
     (if step = 0 then Inl RangeStepZero
      else if step < 0 then Inr []
      else Inr (map (\<lambda>k. k * nat step) [0..<(n + nat step - 1) div nat step]))"

text \<open>
  The dictionary comprehension of \<open>processMarkerData\<close>: the items for the start indices
  \<open>idxs\<close>, numbered from \<open>frame\<close> on.
\<close>

fun markerFrames ::
  "pynum list \<Rightarrow> nat \<Rightarrow> int \<Rightarrow> nat list \<Rightarrow> error + (int \<times> Vector3 option) list" where
  "markerFrames d markerIdx frame [] = Inr []"
| "markerFrames d markerIdx frame (idx # idxs) =
     (case quickVec (take 4 (drop (idx + markerIdx * 4) d)) of
        Inl e \<Rightarrow> Inl e
      | Inr v \<Rightarrow>
          (case markerFrames d markerIdx (frame + 1) idxs of
             Inl e \<Rightarrow> Inl e
           | Inr rest \<Rightarrow> Inr ((frame, v) # rest)))"

definition processMarkerData :: "Marker \<Rightarrow> pynum list \<Rightarrow> nat \<Rightarrow> int \<Rightarrow> error + Marker" where
  "processMarkerData marker d markerIdx mc =
     (case range0 (length d) (mc * 4) of
        Inl e \<Rightarrow> Inl e
      | Inr idxs \<Rightarrow>
          (case markerFrames d markerIdx 0 idxs of
             Inl e \<Rightarrow> Inl e
           | Inr markerData \<Rightarrow> Inr (marker\<lparr>m_data := markerData\<rparr>)))"

text \<open>\<open>for markerName in obj\<close>: the elements of a list, the characters of a string.\<close>

definition iterate :: "pyval option \<Rightarrow> error + pyval list" where
  "iterate v =
     (case v of
        Some (VList xs) \<Rightarrow> Inr xs
      | Some (VStr s) \<Rightarrow> Inr (map (\<lambda>c. VStr [c]) s)
      | _ \<Rightarrow> Inl TypeError)"

definition appendMarkers :: "pyval option \<Rightarrow> (loading, unit) exn" where
  "appendMarkers v =
     andThen (lift (iterate v)) (\<lambda>names.
       onSelf (modify (\<lambda>self. self\<lparr>markers := markers self @ map newMarker names\<rparr>)))"

text \<open>
  The sample region: lines 301 to 310 of \<open>_readMarkers\<close>. \<open>pointScale < 0\<close> raises
  \<open>TypeError\<close> when the scale is not a number.
\<close>

definition readSamples :: "ParameterGroup \<Rightarrow> (loading, pynum list) exn" where
  "readSamples pointGroup =
     andThen (onSelf (gets (\<lambda>self. self))) (\<lambda>self.
     andThen (onHandle (seek ((dataStart (header self) - 1) * 512))) (\<lambda>_.
     andThen (case getParameter pointGroup (lit ''SCALE'') of
                None \<Rightarrow> raise AttributeError
              | Some p \<Rightarrow> ret (data p)) (\<lambda>pointScale.
       let numberOfDataPoints =
             ((lastFrame (header self) - firstFrame (header self)) * getMarkerCount self) * 4
       in case (case pointScale of None \<Rightarrow> None | Some v \<Rightarrow> num_of_val v) of
            None \<Rightarrow> raise TypeError
          | Some sc \<Rightarrow>
              if num_lt_zero sc then onHandle (bulkReadFloat numberOfDataPoints)
              else andThen (onHandle (bulkReadInt numberOfDataPoints)) (\<lambda>vs.
                     ret (map (\<lambda>v. int_mul (the_int v) sc) vs)))))"

text \<open>
  One thread per marker; an exception in a thread ends that thread only and leaves its
  marker as it was. The threads write to different markers and are all joined.
\<close>

definition runThreads :: "pynum list \<Rightarrow> int \<Rightarrow> Marker list \<Rightarrow> Marker list" where
  "runThreads d mc ms =
     map (\<lambda>(markerIdx, marker).
            case processMarkerData marker d markerIdx mc of
              Inl e \<Rightarrow> marker
            | Inr marker' \<Rightarrow> marker')
         (enumerate 0 ms)"

definition readMarkers :: "(loading, unit) exn" where
  "readMarkers =
     andThen (onSelf (gets (getParameterGroup (lit ''POINT'')))) (\<lambda>pg.
       case pg of
         None \<Rightarrow> ret ()
       | Some pointGroup \<Rightarrow>
           (case getParameter pointGroup (lit ''LABELS'') of
              None \<Rightarrow> ret ()
            | Some labels \<Rightarrow>
                andThen (appendMarkers (data labels)) (\<lambda>_.
                andThen (case getParameter pointGroup (lit ''LABELS2'') of
                           None \<Rightarrow> ret ()
                         | Some labels2 \<Rightarrow> appendMarkers (data labels2)) (\<lambda>_.
                andThen (onSelf (gets (\<lambda>self. self))) (\<lambda>self.
                  if int (length (markers self)) = getMarkerCount self then
                    andThen (readSamples pointGroup) (\<lambda>d.
                      onSelf (modify (\<lambda>self.
                        self\<lparr>markers := runThreads d (getMarkerCount self) (markers self)\<rparr>)))
                  else raise MarkerCountMismatch)))))"

subsection \<open>Loading\<close>

text \<open>
  \<open>loadFile\<close> on a document, the file at the path given as its bytes (\<open>None\<close> when no
  such file exists). The result is the exception raised, if any, and the document as the
  call leaves it; \<open>None\<close> when the fuel of the parameter loop ran out. Closing the reader
  at the end changes nothing a caller reads.
\<close>

definition loadFile ::
  "nat \<Rightarrow> string \<Rightarrow> byte list option \<Rightarrow> C3DFile \<Rightarrow> ((error + unit) \<times> C3DFile) option" where
  "loadFile fuel path file self =
     (case file of
        None \<Rightarrow> Some (Inl FileNotFoundError, reset self)
      | Some bs \<Rightarrow>
          (case readHeader (openFile bs, (reset self)\<lparr>filePath := path\<rparr>) of
             (Inl e, s1) \<Rightarrow> Some (Inl e, snd s1)
           | (Inr _, s1) \<Rightarrow>
               (case readParameters fuel s1 of
                  None \<Rightarrow> None
                | Some (Inl e, s2) \<Rightarrow> Some (Inl e, snd s2)
                | Some (Inr _, s2) \<Rightarrow>
                    (case readMarkers s2 of
                       (Inl e, s3) \<Rightarrow> Some (Inl e, snd s3)
                     | (Inr _, s3) \<Rightarrow> Some (Inr (), snd s3)))))"


subsection \<open>Queries\<close>

definition readFrame :: "C3DFile \<Rightarrow> int \<Rightarrow> error + Vector3 option list" where
  "readFrame self frameNumber =
     (if frameNumber < firstFrame (header self) \<or> frameNumber > lastFrame (header self)
      then Inl InvalidFrameNumber
      else Inr (map (\<lambda>marker. getPosition marker frameNumber) (markers self)))"

definition getSampleRate :: "C3DFile \<Rightarrow> pyfloat" where
  "getSampleRate self = frameRate (header self)"

definition getFrameStart :: "C3DFile \<Rightarrow> int" where
  "getFrameStart self = firstFrame (header self)"

definition getFrameEnd :: "C3DFile \<Rightarrow> int" where
  "getFrameEnd self = lastFrame (header self)"

section \<open>The data kinds, in the words of the specification\<close>

text \<open>
  The specification gives a parameter a data kind (String, Byte, Int16 or Float32) and a
  value that is a single scalar or a sequence of scalars; a Byte is a signed 8-bit value,
  an Int16 a 16-bit integer, a Float32 a float. \<open>spec_value_of_kind\<close> follows these words,
  not the source: a value is of a kind when it is a scalar of that kind or a sequence of
  scalars of that kind. A \<open>bool\<close> counts as the integer 0 or 1.
\<close>

fun spec_scalar_of_kind :: "int \<Rightarrow> pyval \<Rightarrow> bool" where
  "spec_scalar_of_kind k (VStr s) = (k = String)"
| "spec_scalar_of_kind k (VBool b) = (k = Byte \<or> k = Interger)"
| "spec_scalar_of_kind k (VInt i) =
     ((k = Byte \<and> - 128 \<le> i \<and> i \<le> 127) \<or> (k = Interger \<and> - 32768 \<le> i \<and> i \<le> 32767))"
| "spec_scalar_of_kind k (VFloat f) = (k = FloatingPoint)"
| "spec_scalar_of_kind k (VList xs) = False"
| "spec_scalar_of_kind k VOther = False"

definition spec_value_of_kind :: "int \<Rightarrow> pyval \<Rightarrow> bool" where
  "spec_value_of_kind k v =
     (case v of
        VList xs \<Rightarrow> list_all (spec_scalar_of_kind k) xs
      | _ \<Rightarrow> spec_scalar_of_kind k v)"

section \<open>Notions for the proofs\<close>

text \<open>
  \<open>stable f m\<close>: the statement \<open>m\<close> leaves the part \<open>f\<close> of the document as it was,
  whether it returns or raises. \<open>never e m\<close>: the statement \<open>m\<close> does not raise \<open>e\<close>.
\<close>

definition stable :: "(C3DFile \<Rightarrow> 'b) \<Rightarrow> (loading, 'a) exn \<Rightarrow> bool" where
  "stable f m = (\<forall>s. f (snd (snd (m s))) = f (snd s))"


section \<open>Test files\<close>

text \<open>
  The minimal file of the end-to-end property. The header block: parameter block 2, key
  80, markerCount 2, firstFrame 1, lastFrame 2, scale factor -1.0, dataStart 3, sample
  rate 60, frame rate 60.0. The parameter block, Intel: the group POINT with id 1, its
  parameters LABELS = ["A", "B"] and SCALE = -1.0, then the end of the block. The data
  block: two frames of two markers, four 32-bit floats each, the positions of A being
  (1, 2, 3) and (7, 8, 9) and those of B (4, 5, 6) and (10, 11, 12).
\<close>

definition minimal_header :: "byte list" where
  "minimal_header =
     [2, 80, 2, 0, 0, 0, 1, 0, 2, 0, 0, 0, 0, 0, 128, 191, 3, 0, 60, 0, 0, 0, 112, 66]"

definition minimal_parameters :: "byte list" where
  "minimal_parameters =
     [1, 80, 1, 84,
      5, 255, 80, 79, 73, 78, 84, 3, 0, 0,
      6, 1, 76, 65, 66, 69, 76, 83, 9, 0, 255, 2, 1, 2, 65, 66, 0,
      5, 1, 83, 67, 65, 76, 69, 9, 0, 4, 0, 0, 0, 128, 191, 0,
      0]"

definition minimal_samples :: "byte list" where
  "minimal_samples =
     [0, 0, 128, 63, 0, 0, 0, 64, 0, 0, 64, 64, 0, 0, 0, 0,
      0, 0, 128, 64, 0, 0, 160, 64, 0, 0, 192, 64, 0, 0, 0, 0,
      0, 0, 224, 64, 0, 0, 0, 65, 0, 0, 16, 65, 0, 0, 0, 0,
      0, 0, 32, 65, 0, 0, 48, 65, 0, 0, 64, 65, 0, 0, 0, 0]"

definition minimal_file :: "byte list" where
  "minimal_file =
     minimal_header @ replicate 488 0 @ minimal_parameters @ replicate 464 0 @ minimal_samples"


text \<open>
  A chain of records: the group POINT with id 1; the string array NAMES of three strings
  of width 1, the first of which is the byte FF, which is not UTF-8; the scalar SCALE =
  -1.0; the end of the block.
\<close>

definition bad_string_records :: "byte list" where
  "bad_string_records =
     [5, 255, 80, 79, 73, 78, 84, 3, 0, 0,
      5, 1, 78, 65, 77, 69, 83, 10, 0, 255, 2, 1, 3, 255, 65, 66, 0,
      5, 1, 83, 67, 65, 76, 69, 9, 0, 4, 0, 0, 0, 128, 191, 0,
      0]"

text \<open>
  For the sample region alone: a POINT group that holds only SCALE, and a document whose
  header declares one marker, the frames 1 to 2 and the data block 1.
\<close>

definition point_with_scale :: "pyval \<Rightarrow> ParameterGroup" where
  "point_with_scale v =
     (newParameterGroup (lit ''POINT'') 1)
       \<lparr>parameters := [(newParameter (lit ''SCALE''))\<lparr>dataType := Some 4, data := Some v\<rparr>]\<rparr>"

definition one_frame_doc :: C3DFile where
  "one_frame_doc =
     newC3DFile\<lparr>header := clear_header\<lparr>markerCount := 1, firstFrame := 1, lastFrame := 2,
                                         dataStart := 1\<rparr>\<rparr>"

text \<open>
  Records whose offset does not point at the byte after the record: a group header POINT
  with offset 20, followed at once by SCALE; and a parameter SCALE with offset 12,
  followed by three bytes that belong to no field. \<open>point_doc\<close> is a document that has
  the group with id 1.
\<close>

definition gap_group_record :: "byte list" where
  "gap_group_record =
     [5, 255, 80, 79, 73, 78, 84, 20, 0, 0,
      5, 1, 83, 67, 65, 76, 69, 9, 0, 4, 0, 0, 0, 128, 191, 0,
      0, 0, 0]"

definition gap_parameter_record :: "byte list" where
  "gap_parameter_record =
     [5, 1, 83, 67, 65, 76, 69, 12, 0, 4, 0, 0, 0, 128, 191, 0, 7, 7, 7, 0]"

definition point_doc :: C3DFile where
  "point_doc = newC3DFile\<lparr>parameterGroups := [newParameterGroup (lit ''POINT'') (- 1)]\<rparr>"


section \<open>Properties of the reader\<close>

lemma unpack_Big_rev: "unpack Big dt (rev bs) = unpack Little dt bs"
  by (simp add: unpack_def field_value_def)

text \<open>
  C2, as the code has it. For the DEC processor type the reader reverses the bytes of the
  field and then reads the result as big-endian, which is the little-endian reading of
  the field as it stands: DEC decodes every field exactly as Intel does. MIPS moves the
  first byte to the end and reads little-endian. On the bytes 01 02 (16-bit integer) and
  01 02 03 04 (32-bit integer, 32-bit float) the Intel and the MIPS results differ.
\<close>

theorem dec_reads_as_intel:
  "readBasedOnProcessorType bs dt (Some DEC) = unpack Big dt (rev bs)
   \<and> readBasedOnProcessorType bs dt (Some DEC) = readBasedOnProcessorType bs dt (Some INTEL)
   \<and> readBasedOnProcessorType bs dt (Some MIPS) = unpack Little dt (drop 1 bs @ take 1 bs)
   \<and> readBasedOnProcessorType [1, 2] DT_INT (Some INTEL)
        \<noteq> readBasedOnProcessorType [1, 2] DT_INT (Some MIPS)
   \<and> readBasedOnProcessorType [1, 2, 3, 4] DT_LONG (Some INTEL)
        \<noteq> readBasedOnProcessorType [1, 2, 3, 4] DT_LONG (Some MIPS)
   \<and> readBasedOnProcessorType [1, 2, 3, 4] DT_FLOAT (Some INTEL)
        \<noteq> readBasedOnProcessorType [1, 2, 3, 4] DT_FLOAT (Some MIPS)"
  by (simp add: readBasedOnProcessorType_def unpack_Big_rev DEC_def INTEL_def MIPS_def)
     (simp add: unpack_def field_value_def float32_def)

text \<open>
  C2 as stated fails on the bytes 01 02 03 04 read as a 32-bit integer: the DEC reading
  is 0x04030201, the Intel reading, and not 0x01020304, the little-endian reading of the
  reversed bytes.
\<close>

theorem dec_byte_swap_counterexample:
  "readBasedOnProcessorType [1, 2, 3, 4] DT_LONG (Some DEC) = Inr (NInt 67305985)
   \<and> unpack Little DT_LONG (rev [1, 2, 3, 4]) = Inr (NInt 16909060)
   \<and> readBasedOnProcessorType [1, 2, 3, 4] DT_LONG (Some INTEL) = Inr (NInt 67305985)"
  by (simp add: readBasedOnProcessorType_def unpack_def field_value_def DEC_def INTEL_def)

section \<open>Properties of the queries\<close>

text \<open>
  C8. \<open>readFrame\<close> raises (\<open>ValueError("Invalid Frame Number")\<close>) exactly when the frame
  number is below \<open>firstFrame\<close> or above \<open>lastFrame\<close>. Otherwise it returns the position
  of each marker, in the order of the marker list; in particular at both boundary values
  when \<open>firstFrame \<le> lastFrame\<close>. It is a function of the document and returns no
  changed document.
\<close>

theorem readFrame_range:
  "(readFrame self frameNumber = Inl InvalidFrameNumber)
     = (frameNumber < firstFrame (header self) \<or> frameNumber > lastFrame (header self))
   \<and> (firstFrame (header self) \<le> frameNumber \<and> frameNumber \<le> lastFrame (header self)
        \<longrightarrow> readFrame self frameNumber
              = Inr (map (\<lambda>marker. getPosition marker frameNumber) (markers self)))
   \<and> (firstFrame (header self) \<le> lastFrame (header self)
        \<longrightarrow> (\<exists>ps qs. readFrame self (firstFrame (header self)) = Inr ps
                     \<and> readFrame self (lastFrame (header self)) = Inr qs
                     \<and> length ps = length (markers self) \<and> length qs = length (markers self)))"
  by (auto simp: readFrame_def)

theorem readFrame_range_witness:
  "(let self = newC3DFile\<lparr>markers := [newMarker (VStr (lit ''A''))],
                           header := clear_header\<lparr>firstFrame := 1, lastFrame := 2\<rparr>\<rparr>
    in firstFrame (header self) \<le> lastFrame (header self)
       \<and> readFrame self 0 = Inl InvalidFrameNumber
       \<and> readFrame self 1 = Inr [getPosition (newMarker (VStr (lit ''A''))) 1]
       \<and> readFrame self 2 = Inr [getPosition (newMarker (VStr (lit ''A''))) 2]
       \<and> readFrame self 3 = Inl InvalidFrameNumber)"
  using
    readFrame_range [of "newC3DFile\<lparr>markers := [newMarker (VStr (lit ''A''))],
                           header := clear_header\<lparr>firstFrame := 1, lastFrame := 2\<rparr>\<rparr>" 0]
    readFrame_range [of "newC3DFile\<lparr>markers := [newMarker (VStr (lit ''A''))],
                           header := clear_header\<lparr>firstFrame := 1, lastFrame := 2\<rparr>\<rparr>" 1]
    readFrame_range [of "newC3DFile\<lparr>markers := [newMarker (VStr (lit ''A''))],
                           header := clear_header\<lparr>firstFrame := 1, lastFrame := 2\<rparr>\<rparr>" 2]
    readFrame_range [of "newC3DFile\<lparr>markers := [newMarker (VStr (lit ''A''))],
                           header := clear_header\<lparr>firstFrame := 1, lastFrame := 2\<rparr>\<rparr>" 3]
  by (simp add: Let_def newC3DFile_def clear_header_def)

section \<open>Properties of the parameters\<close>

lemmas kind_defs = String_def Byte_def Interger_def FloatingPoint_def

lemma kinds_distinct:
  "String \<noteq> Byte" "String \<noteq> Interger" "String \<noteq> FloatingPoint"
  "Byte \<noteq> String" "Byte \<noteq> Interger" "Byte \<noteq> FloatingPoint"
  "Interger \<noteq> String" "Interger \<noteq> Byte" "Interger \<noteq> FloatingPoint"
  "FloatingPoint \<noteq> String" "FloatingPoint \<noteq> Byte" "FloatingPoint \<noteq> Interger"
  by (simp_all add: kind_defs)

lemma dataTypeCheck_scalar:
  "dataTypeCheck (VStr s) k = (k = String)"
  "dataTypeCheck (VBool b) k = (k = Byte \<or> k = Interger)"
  "dataTypeCheck (VInt i) k = (k = Interger \<or> (k = Byte \<and> i < 255))"
  "dataTypeCheck (VFloat f) k = (k = FloatingPoint)"
  "dataTypeCheck VOther k = False"
  by (auto simp: dataTypeCheck_def kind_defs)

lemma dataTypeCheck_list:
  "dataTypeCheck (VList xs) k =
     (if list_ex type_is_int xs \<and> list_ex type_is_float xs then k = FloatingPoint
      else case xs of
             [] \<Rightarrow> False
           | x # r \<Rightarrow> (case x of VList ys \<Rightarrow> False | _ \<Rightarrow> dataTypeCheck x k))"
proof (cases xs)
  case Nil
  then show ?thesis by (simp add: dataTypeCheck_def)
next
  case (Cons x r)
  show ?thesis
  proof (cases "list_ex type_is_int xs \<and> list_ex type_is_float xs")
    case True
    then show ?thesis by (auto simp: dataTypeCheck_def kind_defs)
  next
    case False
    with Cons show ?thesis
      by (cases x) (auto simp: dataTypeCheck_def kind_defs)
  qed
qed

text \<open>
  C9, as the code has it. On a parameter whose data kind is assigned, \<open>setData\<close> either
  stores the new value or raises and leaves the parameter as it was. What it stores is
  decided by \<open>getTypeFromData\<close>, not by the range of the kind: a String parameter takes a
  \<open>str\<close>; a Byte parameter a \<open>bool\<close> or any \<open>int\<close> below 255, with no lower bound; an
  Int16 parameter a \<open>bool\<close> or any \<open>int\<close>, of whatever size; a Float32 parameter a
  \<open>float\<close>. A sequence that holds both an \<open>int\<close> and a \<open>float\<close> is taken by a Float32
  parameter only; any other sequence is taken when it is not empty and its first element,
  as a scalar, would be taken. The elements after the first are not looked at.
\<close>

theorem setData_kind:
  assumes "dataType p = Some k"
  shows "(setData v p = (Inr (), p\<lparr>data := Some v\<rparr>) \<or> setData v p = (Inl IncompatibleData, p))
    \<and> (setData v p = (Inr (), p\<lparr>data := Some v\<rparr>))
        = (case v of
             VStr s \<Rightarrow> k = String
           | VBool b \<Rightarrow> k = Byte \<or> k = Interger
           | VInt i \<Rightarrow> k = Interger \<or> (k = Byte \<and> i < 255)
           | VFloat f \<Rightarrow> k = FloatingPoint
           | VList xs \<Rightarrow>
               (if list_ex type_is_int xs \<and> list_ex type_is_float xs then k = FloatingPoint
                else case xs of
                       [] \<Rightarrow> False
                     | x # r \<Rightarrow>
                         (case x of
                            VStr s \<Rightarrow> k = String
                          | VBool b \<Rightarrow> k = Byte \<or> k = Interger
                          | VInt i \<Rightarrow> k = Interger \<or> (k = Byte \<and> i < 255)
                          | VFloat f \<Rightarrow> k = FloatingPoint
                          | VList ys \<Rightarrow> False
                          | VOther \<Rightarrow> False))
           | VOther \<Rightarrow> False)"
proof -
  have run: "setData v p = (if dataTypeCheck v k then (Inr (), p\<lparr>data := Some v\<rparr>)
                            else (Inl IncompatibleData, p))"
    using assms by (simp add: setData_def)
  have stored: "(setData v p = (Inr (), p\<lparr>data := Some v\<rparr>)) = dataTypeCheck v k"
    by (simp add: run)
  have check: "dataTypeCheck v k
        = (case v of
             VStr s \<Rightarrow> k = String
           | VBool b \<Rightarrow> k = Byte \<or> k = Interger
           | VInt i \<Rightarrow> k = Interger \<or> (k = Byte \<and> i < 255)
           | VFloat f \<Rightarrow> k = FloatingPoint
           | VList xs \<Rightarrow>
               (if list_ex type_is_int xs \<and> list_ex type_is_float xs then k = FloatingPoint
                else case xs of
                       [] \<Rightarrow> False
                     | x # r \<Rightarrow>
                         (case x of
                            VStr s \<Rightarrow> k = String
                          | VBool b \<Rightarrow> k = Byte \<or> k = Interger
                          | VInt i \<Rightarrow> k = Interger \<or> (k = Byte \<and> i < 255)
                          | VFloat f \<Rightarrow> k = FloatingPoint
                          | VList ys \<Rightarrow> False
                          | VOther \<Rightarrow> False))
           | VOther \<Rightarrow> False)"
  proof (cases v)
    case (VList xs)
    show ?thesis
    proof (cases xs)
      case Nil
      with VList show ?thesis by (simp add: dataTypeCheck_list)
    next
      case (Cons x r)
      with VList show ?thesis
        by (cases x) (simp_all add: dataTypeCheck_list dataTypeCheck_scalar)
    qed
  qed (simp_all add: dataTypeCheck_scalar)
  from run stored check show ?thesis by (simp split: if_splits)
qed

text \<open>
  C9 as stated fails: a Byte parameter stores the sequence \<open>[1, "a"]\<close>, which holds a
  string, and the integer \<open>-300\<close>, which is no signed 8-bit value; an Int16 parameter stores
  70000.
\<close>

theorem setData_kind_counterexample:
  "setData (VList [VInt 1, VStr (lit ''a'')]) ((newParameter (lit ''P''))\<lparr>dataType := Some Byte\<rparr>)
     = (Inr (), (newParameter (lit ''P''))\<lparr>dataType := Some Byte,
                                            data := Some (VList [VInt 1, VStr (lit ''a'')])\<rparr>)
   \<and> \<not> spec_value_of_kind Byte (VList [VInt 1, VStr (lit ''a'')])
   \<and> setData (VInt (- 300)) ((newParameter (lit ''P''))\<lparr>dataType := Some Byte\<rparr>)
     = (Inr (), (newParameter (lit ''P''))\<lparr>dataType := Some Byte, data := Some (VInt (- 300))\<rparr>)
   \<and> \<not> spec_value_of_kind Byte (VInt (- 300))
   \<and> setData (VInt 70000) ((newParameter (lit ''P''))\<lparr>dataType := Some Interger\<rparr>)
     = (Inr (), (newParameter (lit ''P''))\<lparr>dataType := Some Interger, data := Some (VInt 70000)\<rparr>)
   \<and> \<not> spec_value_of_kind Interger (VInt 70000)"
  by (simp add: setData_def dataTypeCheck_def newParameter_def spec_value_of_kind_def kind_defs)

theorem setData_kind_witness:
  "dataType ((newParameter (lit ''P''))\<lparr>dataType := Some Byte\<rparr>) = Some Byte
   \<and> setData (VInt (- 300)) ((newParameter (lit ''P''))\<lparr>dataType := Some Byte\<rparr>)
       = (Inr (), (newParameter (lit ''P''))\<lparr>dataType := Some Byte, data := Some (VInt (- 300))\<rparr>)
   \<and> setData (VInt 300) ((newParameter (lit ''P''))\<lparr>dataType := Some Byte\<rparr>)
       = (Inl IncompatibleData, (newParameter (lit ''P''))\<lparr>dataType := Some Byte\<rparr>)
   \<and> setData (VList [VStr (lit ''x''), VInt 1]) ((newParameter (lit ''P''))\<lparr>dataType := Some Byte\<rparr>)
       = (Inl IncompatibleData, (newParameter (lit ''P''))\<lparr>dataType := Some Byte\<rparr>)"
  using
    setData_kind [of "(newParameter (lit ''P''))\<lparr>dataType := Some Byte\<rparr>" Byte "VInt (- 300)"]
    setData_kind [of "(newParameter (lit ''P''))\<lparr>dataType := Some Byte\<rparr>" Byte "VInt 300"]
    setData_kind [of "(newParameter (lit ''P''))\<lparr>dataType := Some Byte\<rparr>" Byte
                     "VList [VStr (lit ''x''), VInt 1]"]
  by (auto simp: kind_defs newParameter_def)

section \<open>Running the decoder on the test files\<close>

lemmas exn_defs =
  ret_def raise_def andThen_def modify_def gets_def lift_def onHandle_def onSelf_def
  setHeader_def Let_def

lemmas reader_defs =
  openFile_def seek_def tell_def readBytes_def readStringFromByte_def readByte_def
  readUnsignedByte_def readInt_def readLong_def readFloat_def setProcessorType_def
  readBasedOnProcessorType_def unpack_def field_value_def INTEL_def DEC_def MIPS_def
  bulkReadFloat_def bulkReadInt_def unpack_all_def decode_def strip_def isspace_def cont_def
  lit_def float32_def

lemmas c3d_defs =
  loadFile_def readHeader_def readProcessorType_def processorTypes_def readParameters_def
  readParametersStart_def readParamBlock_def readValue_def readPropertyValue_def
  newParam_def readDescription_def getParameterByGroupId_def onGroup_def onParameter_def
  addNewProperty_def setData_def setDataType_def newParameter_def newParameterGroup_def
  setDescription_def getParameter_def dataTypeCheck_def kind_defs readMarkers_def
  readSamples_def appendMarkers_def iterate_def runThreads_def processMarkerData_def
  range0_def quickVec_def newMarker_def getMarkerCount_def getParameterGroup_def reset_def
  newC3DFile_def clear_header_def UNABLE_TO_READ_VALUE_def readFrame_def getPosition_def

lemma readParamBlocks_numeral:
  "readParamBlocks (numeral k) s =
     (case readParamBlock s of
        (Inl e, s') \<Rightarrow> Some (Inl e, s')
      | (Inr False, s') \<Rightarrow> Some (Inr (), s')
      | (Inr True, s') \<Rightarrow> readParamBlocks (pred_numeral k) s')"
  by (simp add: numeral_eq_Suc)

lemma readStrings_numeral:
  "readStrings (numeral k) stringSize val r =
     (case readStringFromByte stringSize r of
        (Inr s, r') \<Rightarrow> readStrings (pred_numeral k) stringSize (val @ [VStr (strip s)]) r'
      | (Inl e, r') \<Rightarrow> readStrings (pred_numeral k) stringSize [VStr UNABLE_TO_READ_VALUE] r')"
  by (simp add: numeral_eq_Suc)

lemma readPropertyValues_numeral:
  "readPropertyValues (numeral k) t =
     andThen (readPropertyValue t) (\<lambda>v.
     andThen (readPropertyValues (pred_numeral k) t) (\<lambda>vs. ret (v # vs)))"
  by (simp add: numeral_eq_Suc)

lemma chunks_numeral:
  "chunks (numeral k) w xs = take w xs # chunks (pred_numeral k) w (drop w xs)"
  by (simp add: numeral_eq_Suc)

lemmas numeral_unfolds =
  readParamBlocks_numeral readStrings_numeral readPropertyValues_numeral chunks_numeral

text \<open>
  C1 on the code. Loading the minimal file succeeds with \<open>getMarkerCount() == 2\<close> and the
  markers A and B. Only \<open>(lastFrame - firstFrame) * markerCount * 4 = 8\<close> samples are read,
  the first frame, and each marker keeps it under the key 0. \<open>readFrame(1)\<close> looks up the
  key 1 and returns \<open>[None, None]\<close>, not the positions (1, 2, 3) and (4, 5, 6); they are
  under the key 0, which \<open>readFrame\<close> refuses.
\<close>

theorem minimal_file_readFrame:
  "(case loadFile 5 ''minimal.c3d'' (Some minimal_file) newC3DFile of
      Some (Inr _, self) \<Rightarrow>
        getMarkerCount self = 2
        \<and> map markerName (markers self) = [VStr (lit ''A''), VStr (lit ''B'')]
        \<and> map m_data (markers self)
            = [[(0, Some (Vector3 [NFloat (Fin 1), NFloat (Fin 2), NFloat (Fin 3),
                                   NFloat (Fin 0)]))],
               [(0, Some (Vector3 [NFloat (Fin 4), NFloat (Fin 5), NFloat (Fin 6),
                                   NFloat (Fin 0)]))]]
        \<and> readFrame self 0 = Inl InvalidFrameNumber
        \<and> readFrame self 1 = Inr [None, None]
        \<and> readFrame self 2 = Inr [None, None]
    | _ \<Rightarrow> False)"
  by (simp add: c3d_defs exn_defs reader_defs numeral_unfolds minimal_file_def
        minimal_header_def minimal_parameters_def minimal_samples_def)

text \<open>
  C4 on the code. In the string array NAMES the first of three strings cannot be decoded.
  The walker goes on and decodes SCALE after it, and nothing is raised, but the value of
  NAMES is the sentinel followed by the two strings read after the failure: three
  elements, not one.
\<close>

theorem bad_string_array_value:
  "(case readParamBlocks 5 (openFile bad_string_records, newC3DFile) of
      Some (Inr _, s) \<Rightarrow>
        map (\<lambda>g. map (\<lambda>p. (name p, data p)) (parameters g)) (parameterGroups (snd s))
          = [[(lit ''NAMES'', Some (VList [VStr UNABLE_TO_READ_VALUE, VStr (lit ''A''),
                                            VStr (lit ''B'')])),
              (lit ''SCALE'', Some (VFloat (Fin (- 1))))]]
    | _ \<Rightarrow> False)"
  by (simp add: c3d_defs exn_defs reader_defs numeral_unfolds bad_string_records_def)

section \<open>Properties of the marker decoder\<close>

lemma range0_exact:
  assumes "0 < step"
  shows "range0 (F * nat step) step = Inr (map (\<lambda>k. k * nat step) [0..<F])"
proof -
  from assms obtain n where n: "nat step = Suc n"
    by (cases "nat step") auto
  have "(F * Suc n + Suc n - 1) div Suc n = (n + F * Suc n) div Suc n"
    by (simp add: add.commute)
  also have "\<dots> = F + n div Suc n"
    by (rule div_mult_self1) simp
  also have "\<dots> = F"
    by simp
  finally have "(F * nat step + nat step - 1) div nat step = F"
    by (simp add: n)
  with assms show ?thesis by (simp add: range0_def)
qed

text \<open>What \<open>_quickVec\<close> gives on a slice of four samples.\<close>

lemma quickVec_four:
  assumes "length sl = 4"
  shows "quickVec sl =
           Inr (if num_eq_zero (sl ! 0) \<and> num_eq_zero (sl ! 1) \<and> num_eq_zero (sl ! 2)
                then None else Some (Vector3 sl))"
proof -
  from assms obtain a b c e where "sl = [a, b, c, e]"
    by (cases sl; simp; cases "tl sl"; simp; cases "tl (tl sl)"; simp; cases "tl (tl (tl sl))"; simp) 
  then show ?thesis by (simp add: quickVec_def)
qed

lemma markerFrames_full:
  assumes "\<And>k. k \<in> set ks \<Longrightarrow> k * step + markerIdx * 4 + 4 \<le> length d"
  shows "markerFrames d markerIdx frame (map (\<lambda>k. k * step) ks)
           = Inr (map (\<lambda>(i, k). (frame + int i,
                   (let sl = take 4 (drop (k * step + markerIdx * 4) d)
                    in if num_eq_zero (sl ! 0) \<and> num_eq_zero (sl ! 1) \<and> num_eq_zero (sl ! 2)
                       then None else Some (Vector3 sl))))
                 (enumerate 0 ks))"
  using assms
proof (induction ks arbitrary: frame)
  case Nil
  then show ?case by simp
next
  case (Cons k ks)
  have len: "length (take 4 (drop (k * step + markerIdx * 4) d)) = 4"
    using Cons.prems [of k] by simp
  have rest: "markerFrames d markerIdx (frame + 1) (map (\<lambda>k. k * step) ks)
           = Inr (map (\<lambda>(i, k). (frame + 1 + int i,
                   (let sl = take 4 (drop (k * step + markerIdx * 4) d)
                    in if num_eq_zero (sl ! 0) \<and> num_eq_zero (sl ! 1) \<and> num_eq_zero (sl ! 2)
                       then None else Some (Vector3 sl))))
                 (enumerate 0 ks))"
    using Cons.prems by (intro Cons.IH) simp
  show ?case
    by (simp add: quickVec_four [OF len] rest enumerate_Suc_eq [of 0] Let_def
          split_beta o_def add.assoc)
qed


lemma enumerate_upt: "enumerate 0 [0..<F] = map (\<lambda>k. (k, k)) [0..<F]"
  by (rule nth_equalityI) (simp_all add: nth_enumerate_eq)

lemma map_of_upt_None:
  "F \<le> f \<Longrightarrow> map_of (map (\<lambda>k. (int k, h k)) [0..<F]) (int f) = None"
  by (auto simp: map_of_eq_None_iff image_iff)

lemma map_of_upt:
  "f < F \<Longrightarrow> map_of (map (\<lambda>k. (int k, h k)) [0..<F]) (int f) = Some (h f)"
proof (induction F)
  case 0
  then show ?case by simp
next
  case (Suc F)
  show ?case
  proof (cases "f = F")
    case True
    then show ?thesis by (simp add: map_of_append map_add_def map_of_upt_None)
  next
    case False
    with Suc.prems have "f < F" by simp
    with Suc.IH False show ?thesis by (simp add: map_of_append map_add_def)
  qed
qed

text \<open>
  C7. Let the buffer hold \<open>F\<close> frames of \<open>mc\<close> markers, four samples each. For every
  marker index below \<open>mc\<close> and every frame index below \<open>F\<close>, \<open>processMarkerData\<close>
  returns, and when the three coordinates of that marker in that frame are all zero, the
  marker holds \<open>None\<close> for the frame and \<open>getPosition\<close> gives \<open>None\<close>; otherwise
  \<open>getPosition\<close> gives the vector made of the marker's slice of the frame.
\<close>

theorem zero_sample_is_absent:
  assumes "0 < mc" and "length d = F * (nat mc * 4)" and "markerIdx < nat mc" and "f < F"
  shows "\<exists>marker'. processMarkerData marker d markerIdx mc = Inr marker'
           \<and> (let off = f * (nat mc * 4) + markerIdx * 4
               in if num_eq_zero (d ! off) \<and> num_eq_zero (d ! (off + 1))
                     \<and> num_eq_zero (d ! (off + 2))
                  then map_of (m_data marker') (int f) = Some None
                       \<and> getPosition marker' (int f) = None
                  else getPosition marker' (int f) = Some (Vector3 (take 4 (drop off d))))"
proof -
  let ?step = "nat (mc * 4)"
  define g where "g = (\<lambda>k. (let sl = take 4 (drop (k * ?step + markerIdx * 4) d)
                 in if num_eq_zero (sl ! 0) \<and> num_eq_zero (sl ! 1) \<and> num_eq_zero (sl ! 2)
                    then None else Some (Vector3 sl)))"
  have step: "?step = nat mc * 4" using assms(1) by (simp add: nat_mult_distrib)
  have pos: "0 < mc * 4" using assms(1) by simp
  have len: "length d = F * ?step" using assms(2) step by simp
  have r: "range0 (length d) (mc * 4) = Inr (map (\<lambda>k. k * ?step) [0..<F])"
    unfolding len by (rule range0_exact [OF pos])
  have fits: "k * ?step + markerIdx * 4 + 4 \<le> length d" if "k \<in> set [0..<F]" for k
  proof -
    from that have "Suc k \<le> F" by simp
    then have "Suc k * ?step \<le> F * ?step" by (rule mult_le_mono1)
    moreover have "markerIdx * 4 + 4 \<le> ?step" using assms(3) step by simp
    ultimately show ?thesis using len by simp
  qed
  have m: "markerFrames d markerIdx 0 (map (\<lambda>k. k * ?step) [0..<F])
             = Inr (map (\<lambda>k. (int k, g k)) [0..<F])"
    unfolding g_def
    using markerFrames_full [of "[0..<F]" ?step markerIdx d 0, OF fits]
    by (simp add: enumerate_upt o_def)
  have p: "processMarkerData marker d markerIdx mc
             = Inr (marker\<lparr>m_data := map (\<lambda>k. (int k, g k)) [0..<F]\<rparr>)"
    by (simp add: processMarkerData_def r m)
  have look: "map_of (map (\<lambda>k. (int k, g k)) [0..<F]) (int f) = Some (g f)"
    using assms(4) by (rule map_of_upt)
  have inside: "f * ?step + markerIdx * 4 + 4 \<le> length d"
    using fits [of f] assms(4) by simp
  have gf: "g f = (if num_eq_zero (d ! (f * (nat mc * 4) + markerIdx * 4))
                     \<and> num_eq_zero (d ! (f * (nat mc * 4) + markerIdx * 4 + 1))
                     \<and> num_eq_zero (d ! (f * (nat mc * 4) + markerIdx * 4 + 2))
                   then None
                   else Some (Vector3 (take 4 (drop (f * (nat mc * 4) + markerIdx * 4) d))))"
    using inside by (simp add: g_def Let_def step)
  show ?thesis
    by (simp add: p look getPosition_def gf Let_def)
qed

theorem zero_sample_is_absent_witness:
  "(0 :: int) < 2
   \<and> length [NFloat (Fin 1), NFloat (Fin 2), NFloat (Fin 3), NFloat (Fin 0),
               NFloat (Fin 0), NInt 0, NFloat (Fin 0), NFloat (Fin 5)] = 1 * (nat 2 * 4)
   \<and> (\<exists>marker'.
         processMarkerData (newMarker (VStr (lit ''B'')))
             [NFloat (Fin 1), NFloat (Fin 2), NFloat (Fin 3), NFloat (Fin 0),
              NFloat (Fin 0), NInt 0, NFloat (Fin 0), NFloat (Fin 5)] 1 2 = Inr marker'
         \<and> map_of (m_data marker') 0 = Some None
         \<and> getPosition marker' 0 = None)"
  using zero_sample_is_absent
          [of 2 "[NFloat (Fin 1), NFloat (Fin 2), NFloat (Fin 3), NFloat (Fin 0),
                  NFloat (Fin 0), NInt 0, NFloat (Fin 0), NFloat (Fin 5)]" 1 1 0
              "newMarker (VStr (lit ''B''))"]
  by (simp add: Let_def)

lemma length_chunks: "length (chunks k w xs) = k"
  by (induction k arbitrary: xs) simp_all

lemma unpack_all_Inr:
  "unpack_all dt n bs = Inr vs \<Longrightarrow>
     0 \<le> n \<and> length bs = size_of dt * nat n
     \<and> vs = map (field_value Little dt) (chunks (nat n) (size_of dt) bs)"
  by (auto simp: unpack_all_def split: if_splits)

lemma seek_Inr:
  "seek p r = (Inr u, r') \<Longrightarrow> 0 \<le> p \<and> r' = r\<lparr>handle := Some (nat p)\<rparr>"
  by (auto simp: seek_def split: option.splits if_splits)

lemma bulkRead_Inr:
  assumes "andThen (readBytes (int (size_of dt) * n)) (\<lambda>bs. lift (unpack_all dt n bs)) r
             = (Inr vs, r')"
  shows "\<exists>pos. handle r = Some pos \<and> 0 \<le> n
           \<and> size_of dt * nat n \<le> length (drop pos (contents r))
           \<and> vs = map (field_value Little dt)
                    (chunks (nat n) (size_of dt)
                       (take (size_of dt * nat n) (drop pos (contents r))))"
proof (cases "handle r")
  case None
  with assms show ?thesis by (simp add: andThen_def readBytes_def)
next
  case (Some pos)
  let ?rest = "drop pos (contents r)"
  from assms obtain bs r1 where rb: "readBytes (int (size_of dt) * n) r = (Inr bs, r1)"
    and u: "unpack_all dt n bs = Inr vs"
    by (auto simp: andThen_def lift_def split: prod.splits sum.splits)
  from unpack_all_Inr [OF u] have n: "0 \<le> n" and len: "length bs = size_of dt * nat n"
    and vs: "vs = map (field_value Little dt) (chunks (nat n) (size_of dt) bs)"
    by simp_all
  from n have nn: "0 \<le> int (size_of dt) * n" by simp
  from n have eq: "nat (int (size_of dt) * n) = size_of dt * nat n"
    by (simp add: nat_mult_distrib)
  from rb Some nn have "bs = take (nat (int (size_of dt) * n)) ?rest"
    by (auto simp: readBytes_def Let_def split: if_splits)
  with eq have bs: "bs = take (size_of dt * nat n) ?rest" by simp
  from len bs have "size_of dt * nat n \<le> length ?rest" by (simp add: min_def split: if_splits)
  with Some n vs bs show ?thesis by simp
qed

lemma readSamples_processorType:
  "fst (readSamples pointGroup (r\<lparr>r_processorType := q\<rparr>, self))
     = fst (readSamples pointGroup (r, self))"
  by (simp add: readSamples_def exn_defs seek_def bulkReadFloat_def bulkReadInt_def
        readBytes_def split: option.splits sum.splits prod.splits)

text \<open>
  C6. When the sample region is read, the number of samples is
  \<open>n = (lastFrame - firstFrame) * markerCount * 4\<close>, which is then not negative. The
  scale is the value of SCALE in the POINT group, a number. When it is negative the
  samples are the \<open>n\<close> little-endian 32-bit floats that start at
  \<open>(dataStart - 1) * 512\<close>; otherwise they are the \<open>n\<close> little-endian 16-bit integers
  that start there, each multiplied by the scale. The processor type of the reader has no
  part in it.
\<close>

theorem readSamples_count:
  assumes "readSamples pointGroup s = (Inr d, s')"
  shows "(let n = ((lastFrame (header (snd s)) - firstFrame (header (snd s)))
                     * getMarkerCount (snd s)) * 4;
              start = nat ((dataStart (header (snd s)) - 1) * 512);
              rest = drop start (contents (fst s))
          in 0 \<le> n \<and> length d = nat n
             \<and> (\<exists>p v sc.
                   getParameter pointGroup (lit ''SCALE'') = Some p
                   \<and> data p = Some v \<and> num_of_val v = Some sc
                   \<and> (if num_lt_zero sc
                       then 4 * nat n \<le> length rest
                         \<and> d = map (field_value Little DT_FLOAT)
                                 (chunks (nat n) 4 (take (4 * nat n) rest))
                       else 2 * nat n \<le> length rest
                         \<and> d = map (\<lambda>c. int_mul (the_int (field_value Little DT_INT c)) sc)
                                 (chunks (nat n) 2 (take (2 * nat n) rest))))
             \<and> (\<forall>q. fst (readSamples pointGroup ((fst s)\<lparr>r_processorType := q\<rparr>, snd s))
                      = Inr d))"
proof -
  obtain r self where s: "s = (r, self)" by (cases s)
  define n where "n = ((lastFrame (header self) - firstFrame (header self))
                        * getMarkerCount self) * 4"
  define start where "start = (dataStart (header self) - 1) * 512"
  from assms obtain u r1 where sk: "seek start r = (Inr u, r1)"
    by (auto simp: readSamples_def exn_defs s start_def split: sum.splits prod.splits)
  from seek_Inr [OF sk] have r1: "r1 = r\<lparr>handle := Some (nat start)\<rparr>" by simp
  from assms sk obtain p where p: "getParameter pointGroup (lit ''SCALE'') = Some p"
    by (auto simp: readSamples_def exn_defs s start_def split: option.splits)
  from assms sk p obtain sc where sc: "(case data p of None \<Rightarrow> None | Some v \<Rightarrow> num_of_val v) = Some sc"
    by (auto simp: readSamples_def exn_defs s start_def split: option.splits)
  then obtain v where v: "data p = Some v" "num_of_val v = Some sc"
    by (auto split: option.splits)
  have main: "0 \<le> n \<and> length d = nat n
        \<and> (if num_lt_zero sc
            then 4 * nat n \<le> length (drop (nat start) (contents r))
              \<and> d = map (field_value Little DT_FLOAT)
                      (chunks (nat n) 4 (take (4 * nat n) (drop (nat start) (contents r))))
            else 2 * nat n \<le> length (drop (nat start) (contents r))
              \<and> d = map (\<lambda>c. int_mul (the_int (field_value Little DT_INT c)) sc)
                      (chunks (nat n) 2 (take (2 * nat n) (drop (nat start) (contents r)))))"
  proof (cases "num_lt_zero sc")
    case True
    with assms sk p sc obtain r2 where "bulkReadFloat n r1 = (Inr d, r2)"
      by (auto simp: readSamples_def exn_defs s start_def n_def split: prod.splits sum.splits)
    then have "andThen (readBytes (int (size_of DT_FLOAT) * n))
                 (\<lambda>bs. lift (unpack_all DT_FLOAT n bs)) r1 = (Inr d, r2)"
      by (simp add: bulkReadFloat_def)
    from bulkRead_Inr [OF this] True show ?thesis
      by (auto simp: r1 length_chunks)
  next
    case False
    with assms sk p sc obtain vs r2 where
      b0: "bulkReadInt n r1 = (Inr vs, r2)" and d: "d = map (\<lambda>v. int_mul (the_int v) sc) vs"
      by (auto simp: readSamples_def exn_defs s start_def n_def split: prod.splits sum.splits)
    from b0 have b: "andThen (readBytes (int (size_of DT_INT) * n))
                 (\<lambda>bs. lift (unpack_all DT_INT n bs)) r1 = (Inr vs, r2)"
      by (simp add: bulkReadInt_def)
    from bulkRead_Inr [OF b] False d show ?thesis
      by (auto simp: r1 length_chunks o_def)
  qed
  have indep: "fst (readSamples pointGroup (r\<lparr>r_processorType := q\<rparr>, self)) = Inr d" for q
    using assms by (simp add: readSamples_processorType s)
  from main [unfolded n_def start_def] p v indep show ?thesis
    unfolding Let_def s fst_conv snd_conv by blast
qed

theorem readSamples_count_witness:
  "readSamples (point_with_scale (VFloat (Fin (- 1))))
       (openFile [0, 0, 128, 63, 0, 0, 0, 64, 0, 0, 64, 64, 0, 0, 0, 0, 9], one_frame_doc)
     = (Inr [NFloat (Fin 1), NFloat (Fin 2), NFloat (Fin 3), NFloat (Fin 0)],
        (openFile [0, 0, 128, 63, 0, 0, 0, 64, 0, 0, 64, 64, 0, 0, 0, 0, 9])
           \<lparr>handle := Some 16\<rparr>, one_frame_doc)
   \<and> readSamples (point_with_scale (VFloat (Fin 2)))
       (openFile [1, 0, 255, 255, 3, 0, 0, 0, 9], one_frame_doc)
     = (Inr [NFloat (Fin 2), NFloat (Fin (- 2)), NFloat (Fin 6), NFloat (Fin 0)],
        (openFile [1, 0, 255, 255, 3, 0, 0, 0, 9])\<lparr>handle := Some 8\<rparr>, one_frame_doc)"
proof -
  have a: "readSamples (point_with_scale (VFloat (Fin (- 1))))
       (openFile [0, 0, 128, 63, 0, 0, 0, 64, 0, 0, 64, 64, 0, 0, 0, 0, 9], one_frame_doc)
     = (Inr [NFloat (Fin 1), NFloat (Fin 2), NFloat (Fin 3), NFloat (Fin 0)],
        (openFile [0, 0, 128, 63, 0, 0, 0, 64, 0, 0, 64, 64, 0, 0, 0, 0, 9])
           \<lparr>handle := Some 16\<rparr>, one_frame_doc)"
    by (simp add: point_with_scale_def one_frame_doc_def c3d_defs exn_defs reader_defs
          numeral_unfolds)
  have b: "readSamples (point_with_scale (VFloat (Fin 2)))
       (openFile [1, 0, 255, 255, 3, 0, 0, 0, 9], one_frame_doc)
     = (Inr [NFloat (Fin 2), NFloat (Fin (- 2)), NFloat (Fin 6), NFloat (Fin 0)],
        (openFile [1, 0, 255, 255, 3, 0, 0, 0, 9])\<lparr>handle := Some 8\<rparr>, one_frame_doc)"
    by (simp add: point_with_scale_def one_frame_doc_def c3d_defs exn_defs reader_defs
          numeral_unfolds)
  from readSamples_count [OF a] readSamples_count [OF b] a b show ?thesis
    by simp
qed

section \<open>Properties of the parameter walker\<close>

lemma readBytes_Inr:
  "readBytes n r = (x, r') \<Longrightarrow> handle r = Some pos \<Longrightarrow> 0 \<le> n \<Longrightarrow>
     x = Inr (take (nat n) (drop pos (contents r)))
     \<and> r' = r\<lparr>handle := Some (pos + min (nat n) (length (contents r) - pos))\<rparr>"
  by (auto simp: readBytes_def Let_def min_def)

lemma readBytes_handle:
  "readBytes n r = (Inr bs, r') \<Longrightarrow> \<exists>pos. handle r = Some pos"
  by (auto simp: readBytes_def split: option.splits)

lemma take1_single:
  "take (Suc 0) (drop pos xs) = [b] \<Longrightarrow> pos < length xs \<and> b = xs ! pos"
proof -
  assume h: "take (Suc 0) (drop pos xs) = [b]"
  then have ne: "drop pos xs \<noteq> []" by auto
  then have p: "pos < length xs" by simp
  from h ne have "hd (drop pos xs) = b" by (cases "drop pos xs") auto
  with hd_drop_conv_nth [OF p] p show ?thesis by simp
qed

lemma readByte_Inr:
  assumes "readByte r = (Inr v, r')"
  shows "\<exists>pos. handle r = Some pos \<and> pos < length (contents r)
           \<and> v = sint (contents r ! pos) \<and> r' = r\<lparr>handle := Some (pos + 1)\<rparr>"
proof -
  from assms obtain bs r1 where rb: "readBytes 1 r = (Inr bs, r1)"
    by (auto simp: readByte_def andThen_def split: prod.splits sum.splits)
  from readBytes_handle [OF rb] obtain pos where pos: "handle r = Some pos" by blast
  from readBytes_Inr [OF rb pos] have bs: "bs = take (Suc 0) (drop pos (contents r))"
    and r1: "r1 = r\<lparr>handle := Some (pos + min 1 (length (contents r) - pos))\<rparr>" by simp_all
  from assms rb obtain b where b: "bs = [b]" and v: "v = sint b" and r': "r' = r1"
    by (auto simp: readByte_def andThen_def ret_def raise_def split: list.splits)
  from b bs have "pos < length (contents r) \<and> b = contents r ! pos"
    by (intro take1_single) simp
  with pos v r' r1 show ?thesis by (auto simp: min_def)
qed

lemma tell_Inr:
  "tell r = (Inr p, r') \<Longrightarrow> \<exists>pos. handle r = Some pos \<and> p = int pos \<and> r' = r"
  by (auto simp: tell_def split: option.splits)

lemma readField_Inr:
  assumes "andThen (readBytes (int (size_of dt))) (\<lambda>bs.
           andThen (gets r_processorType) (\<lambda>p.
           andThen (lift (readBasedOnProcessorType bs dt p)) (\<lambda>v. ret (g v)))) r = (Inr x, r')"
  shows "\<exists>pos v. handle r = Some pos \<and> pos + size_of dt \<le> length (contents r)
           \<and> readBasedOnProcessorType (take (size_of dt) (drop pos (contents r))) dt
                (r_processorType r) = Inr v
           \<and> x = g v \<and> r' = r\<lparr>handle := Some (pos + size_of dt)\<rparr>"
proof -
  from assms obtain bs r1 where rb: "readBytes (int (size_of dt)) r = (Inr bs, r1)"
    by (auto simp: andThen_def split: prod.splits sum.splits)
  from readBytes_handle [OF rb] obtain pos where pos: "handle r = Some pos" by blast
  from readBytes_Inr [OF rb pos] have bs: "bs = take (size_of dt) (drop pos (contents r))"
    and r1: "r1 = r\<lparr>handle := Some (pos + min (size_of dt) (length (contents r) - pos))\<rparr>"
    by simp_all
  from assms rb r1 obtain v where
    v: "readBasedOnProcessorType bs dt (r_processorType r) = Inr v" and x: "x = g v"
    and r': "r' = r1"
    by (auto simp: andThen_def gets_def lift_def ret_def split: sum.splits)
  from v have "length bs = size_of dt"
    by (auto simp: readBasedOnProcessorType_def unpack_def split: if_splits)
  with bs have fit: "pos + size_of dt \<le> length (contents r)"
    by (cases dt) (auto simp: min_def split: if_splits)
  with pos v x r' r1 bs show ?thesis by (auto simp: min_def)
qed

lemma readInt_Inr:
  assumes "readInt r = (Inr x, r')"
  shows "\<exists>pos v. handle r = Some pos \<and> pos + 2 \<le> length (contents r)
           \<and> readBasedOnProcessorType (take 2 (drop pos (contents r))) DT_INT
                (r_processorType r) = Inr v
           \<and> x = the_int v \<and> r' = r\<lparr>handle := Some (pos + 2)\<rparr>"
  using readField_Inr [of DT_INT the_int r x r'] assms by (simp add: readInt_def)

lemma readFloat_Inr:
  assumes "readFloat r = (Inr x, r')"
  shows "\<exists>pos v. handle r = Some pos \<and> pos + 4 \<le> length (contents r)
           \<and> readBasedOnProcessorType (take 4 (drop pos (contents r))) DT_FLOAT
                (r_processorType r) = Inr v
           \<and> x = the_float v \<and> r' = r\<lparr>handle := Some (pos + 4)\<rparr>"
  using readField_Inr [of DT_FLOAT the_float r x r'] assms by (simp add: readFloat_def)

lemma readStringFromByte_Inr:
  assumes "readStringFromByte n r = (Inr str, r')" and "0 \<le> n"
  shows "\<exists>pos. handle r = Some pos
           \<and> decode (take (nat n) (drop pos (contents r))) = Some str
           \<and> r' = r\<lparr>handle := Some (pos + min (nat n) (length (contents r) - pos))\<rparr>"
proof -
  from assms(1) obtain bs r1 where rb: "readBytes n r = (Inr bs, r1)"
    by (auto simp: readStringFromByte_def andThen_def split: prod.splits sum.splits)
  from readBytes_handle [OF rb] obtain pos where pos: "handle r = Some pos" by blast
  from readBytes_Inr [OF rb pos assms(2)] assms(1) rb pos show ?thesis
    by (auto simp: readStringFromByte_def andThen_def ret_def raise_def split: option.splits)
qed

lemma readRecordHead_Some:
  assumes "readRecordHead r = (Inr (Some (gid, groupName, recordStart, bytesToNext)), r1)"
  shows "\<exists>pos v. handle r = Some pos
           \<and> gid = sint (contents r ! (pos + 1))
           \<and> recordStart = int pos + 2 + \<bar>sint (contents r ! pos)\<bar>
           \<and> nat recordStart + 2 \<le> length (contents r)
           \<and> readBasedOnProcessorType (take 2 (drop (nat recordStart) (contents r))) DT_INT
                (r_processorType r) = Inr v
           \<and> bytesToNext = the_int v \<and> bytesToNext \<noteq> 0
           \<and> r1 = r\<lparr>handle := Some (nat recordStart + 2)\<rparr>"
proof -
  from assms obtain b ra where a: "readByte r = (Inr b, ra)"
    by (auto simp: readRecordHead_def andThen_def split: prod.splits sum.splits)
  from readByte_Inr [OF a] obtain pos where pos: "handle r = Some pos"
    and b: "b = sint (contents r ! pos)" and ra: "ra = r\<lparr>handle := Some (pos + 1)\<rparr>"
    by blast
  from assms a have nz: "\<bar>b\<bar> \<noteq> 0"
    by (auto simp: readRecordHead_def andThen_def ret_def Let_def split: if_splits)
  from assms a nz obtain g rb where g: "readByte ra = (Inr g, rb)"
    by (auto simp: readRecordHead_def andThen_def Let_def split: prod.splits sum.splits)
  from readByte_Inr [OF g] ra have g1: "pos + 1 < length (contents r)"
    and g2: "g = sint (contents r ! (pos + 1))" and rb: "rb = r\<lparr>handle := Some (pos + 2)\<rparr>"
    by auto
  from assms a nz g obtain nm rc where nm: "readStringFromByte \<bar>b\<bar> rb = (Inr nm, rc)"
    by (auto simp: readRecordHead_def andThen_def Let_def split: prod.splits sum.splits)
  define q where "q = pos + 2 + min (nat \<bar>b\<bar>) (length (contents r) - (pos + 2))"
  from readStringFromByte_Inr [OF nm] rb have rc: "rc = r\<lparr>handle := Some q\<rparr>"
    by (auto simp: q_def)
  from assms a nz g nm obtain cur rd where t: "tell rc = (Inr cur, rd)"
    by (auto simp: readRecordHead_def andThen_def Let_def split: prod.splits sum.splits)
  from tell_Inr [OF t] rc have cur: "cur = int q" and rd: "rd = rc" by auto
  from assms a nz g nm t obtain n re where i: "readInt rd = (Inr n, re)"
    by (auto simp: readRecordHead_def andThen_def Let_def split: prod.splits sum.splits)
  from readInt_Inr [OF i] rd rc obtain v where fit: "q + 2 \<le> length (contents r)"
    and v: "readBasedOnProcessorType (take 2 (drop q (contents r))) DT_INT (r_processorType r)
              = Inr v"
    and n: "n = the_int v" and re: "re = r\<lparr>handle := Some (q + 2)\<rparr>"
    by auto
  from assms a nz g nm t i have res: "n \<noteq> 0 \<and> gid = g \<and> groupName = nm
       \<and> recordStart = cur \<and> bytesToNext = n \<and> r1 = re"
    by (auto simp: readRecordHead_def andThen_def ret_def Let_def split: if_splits)
  from fit have "q = pos + 2 + nat \<bar>b\<bar>"
    by (auto simp: q_def min_def split: if_splits)
  then have qq: "int q = int pos + 2 + \<bar>sint (contents r ! pos)\<bar>" by (simp add: b)
  from res cur qq have rs: "nat recordStart = q" by simp
  from pos g2 res cur qq rs fit v n re show ?thesis by auto
qed

lemma readDescription_Inr:
  assumes "readDescription r = (Inr dsc, r')"
  shows "\<exists>pos. handle r = Some pos \<and> pos < length (contents r)
           \<and> - 1 \<le> sint (contents r ! pos)
           \<and> r' = r\<lparr>handle := Some (pos + 1
                  + (if sint (contents r ! pos) = - 1 then length (contents r) - (pos + 1)
                     else min (nat (sint (contents r ! pos))) (length (contents r) - (pos + 1))))\<rparr>"
proof -
  from assms obtain l ra where a: "readByte r = (Inr l, ra)"
    by (auto simp: readDescription_def andThen_def split: prod.splits sum.splits)
  from readByte_Inr [OF a] obtain pos where pos: "handle r = Some pos"
    and inside: "pos < length (contents r)"
    and l: "l = sint (contents r ! pos)" and ra: "ra = r\<lparr>handle := Some (pos + 1)\<rparr>"
    by blast
  have "- 1 \<le> l \<and> r' = r\<lparr>handle := Some (pos + 1
                  + (if l = - 1 then length (contents r) - (pos + 1)
                     else min (nat l) (length (contents r) - (pos + 1))))\<rparr>"
  proof (cases "l = 0")
    case True
    with assms a ra show ?thesis
      by (simp add: readDescription_def andThen_def ret_def)
  next
    case False
    with assms a obtain bs where "readBytes l ra = (Inr bs, r')"
      by (auto simp: readDescription_def andThen_def readStringFromByte_def ret_def raise_def
            split: prod.splits sum.splits option.splits)
    then show ?thesis
      by (auto simp: readBytes_def ra Let_def min_def split: if_splits)
  qed
  with pos inside l show ?thesis by blast
qed

lemma readParamBlock_head_stops:
  "readRecordHead r = (Inl e, r1) \<Longrightarrow> readParamBlock (r, self) = (Inl e, (r1, self))"
  "readRecordHead r = (Inr None, r1) \<Longrightarrow> readParamBlock (r, self) = (Inr False, (r1, self))"
  by (auto simp: readParamBlock_def readRecordHead_def exn_defs
        split: prod.splits sum.splits if_splits)

text \<open>
  C3, as the code has it. Let a record have the head \<open>(gid, name, recordStart,
  bytesToNext)\<close>, where \<open>recordStart\<close> is the position of the offset field, two bytes and
  the name after the start of the record, and let \<open>_readParamBlock\<close> return \<open>True\<close> on it.
  When a group with the id exists (a parameter record), the reader is left at
  \<open>recordStart + bytesToNext\<close>. When none exists (a group header), no seek is made: the
  reader is left after the description, at \<open>recordStart + 3\<close> plus the length of the
  description read, whatever \<open>bytesToNext\<close> is. The length byte of the description is
  then at least \<open>-1\<close>: it is the number of bytes read, to the end of the file at most,
  and \<open>-1\<close> reads all that is left; a length below \<open>-1\<close> makes the read raise.
\<close>

theorem record_offset:
  assumes "readRecordHead (fst s) = (Inr (Some (gid, groupName, recordStart, bytesToNext)), r1)"
    and "readParamBlock s = (Inr True, s')"
  shows "(\<exists>pos. handle (fst s) = Some pos
             \<and> recordStart = int pos + 2 + \<bar>sint (contents (fst s) ! pos)\<bar>)
         \<and> (case getParameterByGroupId gid (snd s) of
               Some gi \<Rightarrow>
                 0 \<le> recordStart + bytesToNext
                 \<and> handle (fst s') = Some (nat (recordStart + bytesToNext))
             | None \<Rightarrow>
                 nat recordStart + 2 < length (contents (fst s))
                 \<and> - 1 \<le> sint (contents (fst s) ! (nat recordStart + 2))
                 \<and> handle (fst s')
                     = Some (nat recordStart + 3
                        + (if sint (contents (fst s) ! (nat recordStart + 2)) = - 1
                           then length (contents (fst s)) - (nat recordStart + 3)
                           else min (nat (sint (contents (fst s) ! (nat recordStart + 2))))
                                  (length (contents (fst s)) - (nat recordStart + 3)))))"
proof -
  from readRecordHead_Some [OF assms(1)] obtain pos where pos: "handle (fst s) = Some pos"
    and rs: "recordStart = int pos + 2 + \<bar>sint (contents (fst s) ! pos)\<bar>"
    and r1: "r1 = (fst s)\<lparr>handle := Some (nat recordStart + 2)\<rparr>"
    by blast
  have branch: "(case getParameterByGroupId gid (snd s) of
            Some gi \<Rightarrow> 0 \<le> recordStart + bytesToNext
                        \<and> handle (fst s') = Some (nat (recordStart + bytesToNext))
          | None \<Rightarrow> (\<exists>dsc. readDescription r1 = (Inr dsc, fst s')))"
    using assms
    by (auto simp: readParamBlock_def readRecordHead_def exn_defs newParam_def
          split: prod.splits sum.splits option.splits if_splits dest!: seek_Inr)
  show ?thesis
  proof (cases "getParameterByGroupId gid (snd s)")
    case (Some gi)
    with branch pos rs show ?thesis by auto
  next
    case None
    with branch obtain dsc where d: "readDescription r1 = (Inr dsc, fst s')" by force
    have h1: "handle r1 = Some (nat recordStart + 2)" and c1: "contents r1 = contents (fst s)"
      by (simp_all add: r1)
    from readDescription_Inr [OF d] obtain q where q: "handle r1 = Some q"
      and inside: "q < length (contents r1)"
      and lower: "- 1 \<le> sint (contents r1 ! q)"
      and s': "fst s' = r1\<lparr>handle := Some (q + 1
                  + (if sint (contents r1 ! q) = - 1 then length (contents r1) - (q + 1)
                     else min (nat (sint (contents r1 ! q))) (length (contents r1) - (q + 1))))\<rparr>"
      by blast
    from q h1 have qq: "q = nat recordStart + 2" by simp
    have three: "nat recordStart + 2 + 1 = nat recordStart + 3" by simp
    from s' have "handle (fst s') = Some (q + 1
                  + (if sint (contents r1 ! q) = - 1 then length (contents r1) - (q + 1)
                     else min (nat (sint (contents r1 ! q))) (length (contents r1) - (q + 1))))"
      by simp
    then have pos': "handle (fst s')
                     = Some (nat recordStart + 3
                        + (if sint (contents (fst s) ! (nat recordStart + 2)) = - 1
                           then length (contents (fst s)) - (nat recordStart + 3)
                           else min (nat (sint (contents (fst s) ! (nat recordStart + 2))))
                                  (length (contents (fst s)) - (nat recordStart + 3))))"
      unfolding qq c1 three .
    from lower have lower': "- 1 \<le> sint (contents (fst s) ! (nat recordStart + 2))"
      unfolding qq c1 .
    from inside have "nat recordStart + 2 < length (contents (fst s))"
      unfolding qq c1 .
    with pos' lower' None pos rs show ?thesis by simp
  qed
qed

text \<open>
  C3 as stated fails on a group header whose offset is 20: \<open>recordStart\<close> is 7, and after
  the record the reader is at 10, not at 27.
\<close>

theorem record_offset_counterexample:
  "readRecordHead (openFile gap_group_record)
     = (Inr (Some (- 1, lit ''POINT'', 7, 20)), (openFile gap_group_record)\<lparr>handle := Some 9\<rparr>)
   \<and> fst (readParamBlock (openFile gap_group_record, newC3DFile)) = Inr True
   \<and> handle (fst (snd (readParamBlock (openFile gap_group_record, newC3DFile)))) = Some 10"
  by (simp add: gap_group_record_def readRecordHead_def c3d_defs exn_defs reader_defs)

theorem record_offset_witness:
  "readRecordHead (openFile gap_parameter_record)
     = (Inr (Some (1, lit ''SCALE'', 7, 12)), (openFile gap_parameter_record)\<lparr>handle := Some 9\<rparr>)
   \<and> fst (readParamBlock (openFile gap_parameter_record, point_doc)) = Inr True
   \<and> handle (fst (snd (readParamBlock (openFile gap_parameter_record, point_doc)))) = Some 19
   \<and> handle (fst (snd (readParamBlock (openFile gap_group_record, newC3DFile)))) = Some 10"
proof -
  have h1: "readRecordHead (fst (openFile gap_parameter_record, point_doc))
     = (Inr (Some (1, lit ''SCALE'', 7, 12)), (openFile gap_parameter_record)\<lparr>handle := Some 9\<rparr>)"
    by (simp add: gap_parameter_record_def readRecordHead_def exn_defs reader_defs)
  have f1: "fst (readParamBlock (openFile gap_parameter_record, point_doc)) = Inr True"
    by (simp add: gap_parameter_record_def point_doc_def c3d_defs exn_defs reader_defs)
  then have e1: "readParamBlock (openFile gap_parameter_record, point_doc)
            = (Inr True, snd (readParamBlock (openFile gap_parameter_record, point_doc)))"
    by (metis prod.collapse)
  have g1: "getParameterByGroupId 1 point_doc = Some 0"
    by (simp add: point_doc_def c3d_defs)
  have h2: "readRecordHead (fst (openFile gap_group_record, newC3DFile))
     = (Inr (Some (- 1, lit ''POINT'', 7, 20)), (openFile gap_group_record)\<lparr>handle := Some 9\<rparr>)"
    by (simp add: gap_group_record_def readRecordHead_def exn_defs reader_defs)
  have f2: "fst (readParamBlock (openFile gap_group_record, newC3DFile)) = Inr True"
    by (simp add: gap_group_record_def c3d_defs exn_defs reader_defs)
  then have e2: "readParamBlock (openFile gap_group_record, newC3DFile)
            = (Inr True, snd (readParamBlock (openFile gap_group_record, newC3DFile)))"
    by (metis prod.collapse)
  have g2: "getParameterByGroupId (- 1) newC3DFile = None"
    by (simp add: c3d_defs)
  have c2: "sint (contents (openFile gap_group_record) ! 9) = 0"
    by (simp add: gap_group_record_def openFile_def)
  from record_offset [OF h1 e1] record_offset [OF h2 e2] h1 f1 g1 g2 c2 show ?thesis
    by simp
qed

text \<open>
  A length below \<open>-1\<close> makes the read raise: a group header whose description length is
  the byte FD raises at the description and adds no group, and a string parameter whose
  width is the byte FD raises at the string.
\<close>

lemma negative_length_raises:
  "readParamBlock (openFile [5, 255, 80, 79, 73, 78, 84, 3, 0, 253, 65, 66, 67, 0], newC3DFile)
     = (Inl NegativeReadLength,
        (openFile [5, 255, 80, 79, 73, 78, 84, 3, 0, 253, 65, 66, 67, 0])\<lparr>handle := Some 10\<rparr>,
        newC3DFile)"
  "fst (readParamBlock
          (openFile [5, 1, 78, 65, 77, 69, 83, 8, 0, 255, 1, 253, 65, 66, 67, 0, 0], point_doc))
     = Inl NegativeReadLength"
  by (simp_all add: point_doc_def c3d_defs exn_defs reader_defs)

section \<open>Properties of loading\<close>

lemma stable_ret: "stable f (ret a)"
  by (simp add: stable_def ret_def)

lemma stable_raise: "stable f (raise e)"
  by (simp add: stable_def raise_def)

lemma stable_lift: "stable f (lift x)"
  by (simp add: stable_def lift_def)

lemma stable_andThen:
  assumes "stable f m" and "\<And>a. stable f (g a)"
  shows "stable f (andThen m g)"
proof -
  have "f (snd (snd (andThen m g s))) = f (snd s)" for s
  proof -
    obtain x s1 where ms: "m s = (x, s1)" by (cases "m s")
    from assms(1) ms have s1: "f (snd s1) = f (snd s)"
      by (metis stable_def snd_conv)
    show ?thesis
    proof (cases x)
      case (Inl e)
      with ms s1 show ?thesis by (simp add: andThen_def)
    next
      case (Inr a)
      from assms(2) [of a] have "f (snd (snd (g a s1))) = f (snd s1)"
        unfolding stable_def by blast
      with ms Inr s1 show ?thesis by (simp add: andThen_def)
    qed
  qed
  then show ?thesis unfolding stable_def by blast
qed

lemma stable_onHandle: "stable f (onHandle m)"
  by (simp add: stable_def onHandle_def split: prod.splits)

lemma stable_onSelf:
  assumes "\<And>self. f (snd (m self)) = f self"
  shows "stable f (onSelf m)"
  using assms by (simp add: stable_def onSelf_def split: prod.splits) (metis snd_conv)

lemma stable_gets: "stable f (onSelf (gets g))"
  by (rule stable_onSelf) (simp add: gets_def)

lemma stable_onGroup: "(\<And>gs self. f (self\<lparr>parameterGroups := gs\<rparr>) = f self) \<Longrightarrow> stable f (onSelf (onGroup gi m))"
  by (rule stable_onSelf) (simp add: onGroup_def split: prod.splits)








lemmas stable_intros =
  stable_ret stable_raise stable_lift stable_andThen stable_onHandle stable_gets

lemma stableD:
  "stable f m \<Longrightarrow> m s = (x, s') \<Longrightarrow> f (snd s') = f (snd s)"
  unfolding stable_def by (metis snd_conv)

lemma stable_setHeader:
  "(\<And>self h. f (self\<lparr>header := g h\<rparr>) = f (self\<lparr>header := h\<rparr>)) \<Longrightarrow> stable f (setHeader g)"
proof -
  assume a: "\<And>self h. f (self\<lparr>header := g h\<rparr>) = f (self\<lparr>header := h\<rparr>)"
  have "f (self\<lparr>header := g (header self)\<rparr>) = f self" for self
    using a [where self = self and h = "header self"] by simp
  then show ?thesis
    unfolding setHeader_def by (intro stable_onSelf) (simp add: modify_def)
qed

lemma stable_modify:
  "(\<And>self. f (g self) = f self) \<Longrightarrow> stable f (onSelf (modify g))"
  by (rule stable_onSelf) (simp add: modify_def)

text \<open>The two rates of the header.\<close>

lemma rates_readProcessorType:
  "stable (\<lambda>self. (frameRate (header self), sampleRate (header self))) readProcessorType"
  unfolding readProcessorType_def Let_def
  by (intro stable_intros stable_setHeader) simp

lemma rates_readParametersStart:
  "stable (\<lambda>self. (frameRate (header self), sampleRate (header self))) readParametersStart"
  unfolding readParametersStart_def
  by (intro stable_intros stable_setHeader rates_readProcessorType) simp

lemma rates_readSamples:
  "stable (\<lambda>self. (frameRate (header self), sampleRate (header self))) (readSamples pg)"
  unfolding readSamples_def Let_def
  by (auto intro!: stable_intros split: option.splits)

lemma rates_appendMarkers:
  "stable (\<lambda>self. (frameRate (header self), sampleRate (header self))) (appendMarkers v)"
  unfolding appendMarkers_def
  by (intro stable_intros stable_modify) simp

lemma rates_readMarkers:
  "stable (\<lambda>self. (frameRate (header self), sampleRate (header self))) readMarkers"
  unfolding readMarkers_def
  by (auto intro!: stable_intros stable_modify rates_readSamples rates_appendMarkers
        split: option.splits)

lemma stable_readParamBlock:
  assumes "\<And>gs self. f (self\<lparr>parameterGroups := gs\<rparr>) = f self"
  shows "stable f readParamBlock"
  unfolding readParamBlock_def newParam_def Let_def
  by (auto intro!: stable_intros stable_onGroup stable_modify simp: assms split: option.splits)

lemma stable_readParamBlocks:
  assumes "\<And>gs self. f (self\<lparr>parameterGroups := gs\<rparr>) = f self"
    and "readParamBlocks fuel s = Some (x, s')"
  shows "f (snd s') = f (snd s)"
  using assms(2)
proof (induction fuel arbitrary: s)
  case 0
  then show ?case by simp
next
  case (Suc n)
  obtain y s1 where step: "readParamBlock s = (y, s1)" by (cases "readParamBlock s")
  have keep: "f (snd s1) = f (snd s)"
    by (rule stableD [OF stable_readParamBlock step]) (rule assms(1))
  show ?case
  proof (cases y)
    case (Inl e)
    with Suc.prems step keep show ?thesis by simp
  next
    case (Inr b)
    show ?thesis
    proof (cases b)
      case True
      with Suc.prems step Inr have "readParamBlocks n s1 = Some (x, s')" by simp
      from Suc.IH [OF this] keep show ?thesis by simp
    next
      case False
      with Suc.prems step Inr keep show ?thesis by simp
    qed
  qed
qed

lemma stable_readParameters:
  assumes "\<And>gs self. f (self\<lparr>parameterGroups := gs\<rparr>) = f self"
    and "stable f readParametersStart"
    and "readParameters fuel s = Some (x, s')"
  shows "f (snd s') = f (snd s)"
proof -
  obtain y s1 where st: "readParametersStart s = (y, s1)" by (cases "readParametersStart s")
  have keep: "f (snd s1) = f (snd s)"
    by (rule stableD [OF assms(2) st])
  show ?thesis
  proof (cases y)
    case (Inl e)
    with assms(3) st keep show ?thesis by (simp add: readParameters_def)
  next
    case (Inr a)
    with assms(3) st have "readParamBlocks fuel s1 = Some (x, s')"
      by (simp add: readParameters_def)
    from stable_readParamBlocks [of f, OF assms(1) this] keep show ?thesis by simp
  qed
qed

lemma andThenE:
  assumes "andThen m f s = (Inr b, s')"
  obtains a s1 where "m s = (Inr a, s1)" and "f a s1 = (Inr b, s')"
  using assms by (auto simp: andThen_def split: prod.splits sum.splits)

lemma ifRaiseE:
  assumes "(if c then m else raise e) s = (Inr b, s')"
  obtains "c" and "m s = (Inr b, s')"
  using assms by (auto simp: raise_def split: if_splits)

lemma onHandle_D:
  "onHandle m s = (Inr a, s') \<Longrightarrow> \<exists>r'. m (fst s) = (Inr a, r') \<and> s' = (r', snd s)"
  by (auto simp: onHandle_def split: prod.splits)

lemma setHeader_D:
  "setHeader g s = (x, s') \<Longrightarrow> s' = (fst s, (snd s)\<lparr>header := g (header (snd s))\<rparr>)"
  by (auto simp: setHeader_def onSelf_def modify_def)

lemma getsHeader_D:
  "onSelf (gets header) s = (Inr h, s') \<Longrightarrow> h = header (snd s) \<and> s' = s"
  by (auto simp: onSelf_def gets_def)

lemma setProcessorType_D:
  "setProcessorType p r = (x, r') \<Longrightarrow> r' = r\<lparr>r_processorType := p\<rparr>"
  by (auto simp: setProcessorType_def modify_def)

lemma readHeader_rates:
  assumes "readHeader s = (Inr u, s1)"
  shows "\<exists>vf vi.
           readBasedOnProcessorType (take 4 (drop 20 (contents (fst s)))) DT_FLOAT
               (processorType (header (snd s1))) = Inr vf
           \<and> frameRate (header (snd s1)) = the_float vf
           \<and> readBasedOnProcessorType (take 2 (drop 18 (contents (fst s)))) DT_INT
               (processorType (header (snd s1))) = Inr vi
           \<and> sampleRate (header (snd s1)) = the_int vi
           \<and> processorType (header (snd s1))
               = processorTypes (sint (contents (fst s)
                   ! (nat ((sint (contents (fst s) ! 0) - 1) * 512) + 3)))"
  using assms unfolding readHeader_def readProcessorType_def Let_def
  apply (elim andThenE ifRaiseE)
  apply (drule onHandle_D setHeader_D getsHeader_D)+
  apply (elim exE conjE)
  apply (drule seek_Inr readByte_Inr tell_Inr readInt_Inr readFloat_Inr setProcessorType_D)+
  apply (elim exE conjE)
  apply (clarsimp simp: eval_nat_numeral)
  done

text \<open>
  C10. After a successful load, \<open>getSampleRate()\<close> is the \<open>frameRate\<close> field of the
  header: the 32-bit float in the bytes 20 to 23 of the file (words 11 and 12), read under
  the processor type named by the fourth byte of the parameter block. The \<open>sampleRate\<close>
  field is the 16-bit integer in the bytes 18 and 19 (word 10). When the two fields are not
  equal as numbers, \<open>getSampleRate()\<close> is not equal to \<open>sampleRate\<close>.
\<close>

theorem getSampleRate_frameRate:
  assumes "loadFile fuel path (Some bs) self = Some (Inr u, d)"
  shows "getSampleRate d = frameRate (header d)
         \<and> (\<exists>vf vi.
               readBasedOnProcessorType (take 4 (drop 20 bs)) DT_FLOAT
                 (processorTypes (sint (bs ! (nat ((sint (bs ! 0) - 1) * 512) + 3)))) = Inr vf
               \<and> getSampleRate d = the_float vf
               \<and> readBasedOnProcessorType (take 2 (drop 18 bs)) DT_INT
                 (processorTypes (sint (bs ! (nat ((sint (bs ! 0) - 1) * 512) + 3)))) = Inr vi
               \<and> sampleRate (header d) = the_int vi)
         \<and> (\<not> float_eq_int (frameRate (header d)) (sampleRate (header d))
              \<longrightarrow> \<not> float_eq_int (getSampleRate d) (sampleRate (header d)))"
proof -
  let ?s0 = "(openFile bs, (reset self)\<lparr>filePath := path\<rparr>)"
  from assms obtain u1 s1 where h: "readHeader ?s0 = (Inr u1, s1)"
    by (auto simp: loadFile_def split: prod.splits sum.splits)
  from assms h obtain u2 s2 where p: "readParameters fuel s1 = Some (Inr u2, s2)"
    by (auto simp: loadFile_def split: prod.splits sum.splits option.splits)
  from assms h p obtain u3 s3 where m: "readMarkers s2 = (Inr u3, s3)" and d: "d = snd s3"
    by (auto simp: loadFile_def split: prod.splits sum.splits option.splits)
  have c: "contents (fst ?s0) = bs" by (simp add: openFile_def)
  from readHeader_rates [OF h] obtain vf vi where
    vf: "readBasedOnProcessorType (take 4 (drop 20 bs)) DT_FLOAT
           (processorType (header (snd s1))) = Inr vf"
    and fr: "frameRate (header (snd s1)) = the_float vf"
    and vi: "readBasedOnProcessorType (take 2 (drop 18 bs)) DT_INT
           (processorType (header (snd s1))) = Inr vi"
    and sr: "sampleRate (header (snd s1)) = the_int vi"
    and pt: "processorType (header (snd s1))
               = processorTypes (sint (bs ! (nat ((sint (bs ! 0) - 1) * 512) + 3)))"
    unfolding c by blast
  have k2: "(frameRate (header (snd s2)), sampleRate (header (snd s2)))
              = (frameRate (header (snd s1)), sampleRate (header (snd s1)))"
    by (rule stable_readParameters [OF _ rates_readParametersStart p]) simp
  have k3: "(frameRate (header (snd s3)), sampleRate (header (snd s3)))
              = (frameRate (header (snd s2)), sampleRate (header (snd s2)))"
    by (rule stableD [OF rates_readMarkers m])
  from k2 k3 d fr sr have "frameRate (header d) = the_float vf"
    and "sampleRate (header d) = the_int vi" by simp_all
  with vf vi pt show ?thesis
    by (auto simp: getSampleRate_def)
qed

theorem getSampleRate_frameRate_witness:
  "(\<exists>d. loadFile 5 ''minimal.c3d'' (Some minimal_file) newC3DFile = Some (Inr (), d)
        \<and> getSampleRate d = Fin 60 \<and> sampleRate (header d) = 60)
   \<and> (\<exists>d. loadFile 5 ''minimal.c3d'' (Some (minimal_file[18 := 50])) newC3DFile
               = Some (Inr (), d)
        \<and> getSampleRate d = Fin 60 \<and> sampleRate (header d) = 50
        \<and> \<not> float_eq_int (getSampleRate d) (sampleRate (header d)))"
proof -
  define da where "da = snd (the (loadFile 5 ''minimal.c3d'' (Some minimal_file) newC3DFile))"
  define db where
    "db = snd (the (loadFile 5 ''minimal.c3d'' (Some (minimal_file[18 := 50])) newC3DFile))"
  have a: "loadFile 5 ''minimal.c3d'' (Some minimal_file) newC3DFile = Some (Inr (), da)"
    unfolding da_def
    by (simp add: c3d_defs exn_defs reader_defs numeral_unfolds minimal_file_def
          minimal_header_def minimal_parameters_def minimal_samples_def)
  have b: "loadFile 5 ''minimal.c3d'' (Some (minimal_file[18 := 50])) newC3DFile
             = Some (Inr (), db)"
    unfolding db_def
    by (simp add: c3d_defs exn_defs reader_defs numeral_unfolds minimal_file_def
          minimal_header_def minimal_parameters_def minimal_samples_def)
  have bytes:
    "take 4 (drop 20 minimal_file) = [0, 0, 112, 66]"
    "take 2 (drop 18 minimal_file) = [60, 0]"
    "take 4 (drop 20 (minimal_file[18 := 50])) = [0, 0, 112, 66]"
    "take 2 (drop 18 (minimal_file[18 := 50])) = [50, 0]"
    "minimal_file ! 0 = 2" "minimal_file ! 515 = 84"
    "minimal_file[18 := 50] ! 0 = 2" "minimal_file[18 := 50] ! 515 = 84"
    by (simp_all add: minimal_file_def minimal_header_def minimal_parameters_def
          minimal_samples_def nth_append)
  have ra: "getSampleRate da = Fin 60 \<and> sampleRate (header da) = 60"
    using getSampleRate_frameRate [OF a]
    by (auto simp: bytes processorTypes_def readBasedOnProcessorType_def unpack_def
          field_value_def float32_def INTEL_def)
  have rb: "getSampleRate db = Fin 60 \<and> sampleRate (header db) = 50"
    using getSampleRate_frameRate [OF b]
    by (auto simp: bytes processorTypes_def readBasedOnProcessorType_def unpack_def
          field_value_def float32_def INTEL_def)
  from a b ra rb show ?thesis by simp
qed
















































end
